theory Spec2Isabelle
  imports Main "HOL-Library.Word"
begin

unbundle bit_operations_syntax

section \<open>The PlayStation 4 machine of Orbital (src/orbital/hardware/ps4.cpp)\<close>

text \<open>
  A shallow embedding of \<^verbatim>\<open>PS4Machine\<close>: its constructor, its destructor and
  \<^verbatim>\<open>recover\<close>. The classes the file uses but does not define (\<^verbatim>\<open>MemorySpace\<close>,
  \<^verbatim>\<open>AliasSpace\<close>, the composite space behind \<^verbatim>\<open>space_mem\<close>, \<^verbatim>\<open>Machine::reset\<close>,
  the container parsers) are either parameters of the model or small definitions
  written from the specification; each of those says so in its comment.
\<close>

subsection \<open>Machine integers and errors\<close>

type_synonym U08 = "8 word"
type_synonym U16 = "16 word"
type_synonym U32 = "32 word"
type_synonym U64 = "64 word"
type_synonym bytes = "U08 list"

text \<open>
  The failure kinds of the specification (section 7), and one more outcome:
  \<open>ReadPastEnd n k\<close> records a copy of \<open>n\<close> bytes out of a buffer that holds only
  \<open>k < n\<close>. C++ gives such a \<^verbatim>\<open>memcpy\<close> no defined behaviour; the model stops there
  instead of inventing the bytes.
\<close>

datatype error =
    OutOfBounds
  | OverlapError
  | UnmappedAddress
  | EntryNotFound
  | UnsupportedImage
  | ReadPastEnd nat nat

subsection \<open>Memory spaces\<close>

text \<open>
  Modelled from the spec: \<^verbatim>\<open>MemorySpace\<close> is declared outside ps4.cpp. Section 3 of
  the specification: an owned, byte-addressable backing store of fixed size; every
  access lies within \<open>[0, size)\<close>, and one that does not fails with \<open>OutOfBounds\<close>.
  The store is a function from offsets to bytes: 8GB of RAM is never a list.
\<close>

record MemorySpace =
  space_size :: nat
  space_bytes :: "nat \<Rightarrow> U08"

text \<open>
  Modelled from the spec: \<^verbatim>\<open>MemorySpace::write(offset, size, data)\<close>. \<open>data\<close> is the
  buffer behind the source pointer; the copy takes its first \<open>len\<close> bytes.
\<close>

definition space_write :: "MemorySpace \<Rightarrow> nat \<Rightarrow> nat \<Rightarrow> bytes \<Rightarrow> error + MemorySpace" where
  "space_write sp off len buf =
     (if space_size sp < off + len then Inl OutOfBounds
      else if length buf < len then Inl (ReadPastEnd len (length buf))
      else Inr (sp\<lparr>space_bytes :=
             (\<lambda>i. if off \<le> i \<and> i < off + len then buf ! (i - off) else space_bytes sp i)\<rparr>))"

text \<open>Modelled from the spec: \<^verbatim>\<open>MemorySpace::read(offset, size)\<close>.\<close>

definition space_read :: "MemorySpace \<Rightarrow> nat \<Rightarrow> nat \<Rightarrow> error + bytes" where
  "space_read sp off len =
     (if space_size sp < off + len then Inl OutOfBounds
      else Inr (map (space_bytes sp) [off..<off + len]))"

text \<open>
  A raw store through the host pointer \<^verbatim>\<open>space_ram->ptr()\<close>: \<^verbatim>\<open>ram[i] = v\<close>. No
  bounds check stands in the source.
\<close>

definition poke :: "MemorySpace \<Rightarrow> nat \<Rightarrow> U08 \<Rightarrow> MemorySpace" where
  "poke sp i v = sp\<lparr>space_bytes := (space_bytes sp)(i := v)\<rparr>"

text \<open>\<^verbatim>\<open>memcpy(&ram[i], src, n)\<close> with \<open>n = length src\<close>: byte after byte.\<close>

fun memcpy_to :: "MemorySpace \<Rightarrow> nat \<Rightarrow> bytes \<Rightarrow> MemorySpace" where
  "memcpy_to sp i [] = sp"
| "memcpy_to sp i (b # bs) = memcpy_to (poke sp i b) (Suc i) bs"

subsection \<open>The composite address space\<close>

datatype backing = RamStore | UbiosStore

text \<open>
  Modelled from the spec: \<^verbatim>\<open>AliasSpace\<close> is declared outside ps4.cpp. Sections 2 and
  3: a view onto a sub-range of an existing memory space, which owns no storage and
  forwards accesses with an offset translation. A subspace, as the composite space
  sees it, is the store whose bytes it shows, the offset of its first byte in that
  store, and its size: \<^verbatim>\<open>new AliasSpace(this, parent, offset, size)\<close> is such a view of
  \<open>parent\<close>, and a \<^verbatim>\<open>MemorySpace\<close> registered directly is the view of all of itself.
\<close>

record subspace =
  sub_backing :: backing
  sub_offset :: nat
  sub_size :: nat

definition AliasSpace :: "backing \<Rightarrow> U64 \<Rightarrow> U64 \<Rightarrow> subspace" where
  "AliasSpace parent off sz = \<lparr>sub_backing = parent, sub_offset = unat off, sub_size = unat sz\<rparr>"

definition whole_space :: "backing \<Rightarrow> MemorySpace \<Rightarrow> subspace" where
  "whole_space b sp = \<lparr>sub_backing = b, sub_offset = 0, sub_size = space_size sp\<rparr>"

definition ranges_overlap :: "nat \<Rightarrow> nat \<Rightarrow> nat \<Rightarrow> nat \<Rightarrow> bool" where
  "ranges_overlap b1 s1 b2 s2 = (b1 < b2 + s2 \<and> b2 < b1 + s1)"

text \<open>
  Modelled from the spec: \<^verbatim>\<open>addSubspace(subspace, base)\<close> of the composite space is
  declared outside ps4.cpp. Section 4.1: it registers the subspace at the
  guest-physical base and fails with \<open>OverlapError\<close> if the new range
  \<open>[base, base + size)\<close> intersects a registered one.
\<close>

definition addSubspace ::
  "(nat \<times> subspace) list \<Rightarrow> subspace \<Rightarrow> U64 \<Rightarrow> error + (nat \<times> subspace) list" where
  "addSubspace regs sub base =
     (if list_ex (\<lambda>(b, s). ranges_overlap (unat base) (sub_size sub) b (sub_size s)) regs
      then Inl OverlapError
      else Inr (regs @ [(unat base, sub)]))"

subsection \<open>The machine\<close>

text \<open>The objects the constructor creates with \<^verbatim>\<open>new\<close>, named as its members are.\<close>

datatype component =
    Vm
  | Space_ram | Space_ram_below_4g | Space_ram_above_4g | Space_ubios
  | Cpu nat
  | Lvp_host | Lvp_rc | Lvp_gc | Lvp_hdac | Lvp_iommu | Lvp_rp
  | Lvp_fnc0 | Lvp_fnc1 | Lvp_fnc2 | Lvp_fnc3 | Lvp_fnc4 | Lvp_fnc5
  | Aeolia_acpi | Aeolia_gbe | Aeolia_ahci | Aeolia_sdhci
  | Aeolia_pcie | Aeolia_dmac | Aeolia_mem | Aeolia_xhci

text \<open>
  \<^verbatim>\<open>PS4MachineConfig\<close>: the CPU count (8 by default) and the two serial back ends,
  which the constructor only hands on to the Aeolia PCIe device.
\<close>

record PS4MachineConfig =
  cpu_count :: int
  aeolia_uart0 :: nat
  aeolia_uart1 :: nat

definition PS4MachineConfig_default :: PS4MachineConfig where
  "PS4MachineConfig_default = \<lparr>cpu_count = 8, aeolia_uart0 = 0, aeolia_uart1 = 0\<rparr>"

text \<open>
  The machine: the composite space \<open>space_mem\<close> (its registrations, in order), the two
  stores, the objects alive in order of creation, and the state of CPUs and devices,
  which this file never looks into (\<open>'d\<close>).
\<close>

record 'd machine =
  space_mem :: "(nat \<times> subspace) list"
  space_ram :: MemorySpace
  space_ubios :: MemorySpace
  objects :: "component list"
  dev_state :: 'd

text \<open>
  What the constructor takes from outside the file: the bytes of a fresh allocation
  (whatever \<^verbatim>\<open>new MemorySpace\<close> leaves there) and the state the devices start in.
\<close>

record 'd environment =
  fresh_ram :: "nat \<Rightarrow> U08"
  fresh_ubios :: "nat \<Rightarrow> U08"
  fresh_devices :: 'd

text \<open>
  Modelled from the spec: the literal suffix \<^verbatim>\<open>_GB\<close> is defined outside ps4.cpp.
  Section 6 fixes it: 8GB of RAM split at \<open>0x80000000\<close>, the 2GB/6GB boundary, so
  one GB is \<open>2^30\<close> bytes. The arithmetic is the source's, on 64-bit words.
\<close>

definition GB :: "U64 \<Rightarrow> U64" where
  "GB n = n * 1024 * 1024 * 1024"

definition ram_size :: U64 where "ram_size = GB 8"
definition ram_size_below_4g :: U64 where "ram_size_below_4g = 0x80000000"
definition ram_size_above_4g :: U64 where "ram_size_above_4g = ram_size - ram_size_below_4g"
definition ubios_size :: U64 where "ubios_size = 0x80000"

definition MemorySpace_new :: "U64 \<Rightarrow> (nat \<Rightarrow> U08) \<Rightarrow> MemorySpace" where
  "MemorySpace_new sz fresh = \<lparr>space_size = unat sz, space_bytes = fresh\<rparr>"

text \<open>Lines 58 to 63: one CPU device per index below \<open>cpu_count\<close>.\<close>

definition new_cpus :: "int \<Rightarrow> component list" where
  "new_cpus n = map Cpu [0..<nat n]"

definition new_liverpool :: "component list" where
  "new_liverpool =
     [Lvp_host, Lvp_rc, Lvp_gc, Lvp_hdac, Lvp_iommu, Lvp_rp,
      Lvp_fnc0, Lvp_fnc1, Lvp_fnc2, Lvp_fnc3, Lvp_fnc4, Lvp_fnc5]"

definition new_aeolia :: "component list" where
  "new_aeolia =
     [Aeolia_acpi, Aeolia_gbe, Aeolia_ahci, Aeolia_sdhci,
      Aeolia_pcie, Aeolia_dmac, Aeolia_mem, Aeolia_xhci]"

text \<open>\<^verbatim>\<open>uint8_t sha1_null16_preimage[20] = { 0xF8, 0x6F }\<close>: the rest is zero.\<close>

definition sha1_null16_preimage :: bytes where
  "sha1_null16_preimage = [0xF8, 0x6F] @ replicate 18 0"

text \<open>Lines 98 to 118: the scratch pad at \<^verbatim>\<open>&ram[0x600000]\<close>.\<close>

definition init_boot :: "MemorySpace \<Rightarrow> MemorySpace" where
  "init_boot ram =
     (let boot = 0x600000;
          r1 = poke ram (boot + 0x000) 6;
          r2 = poke r1 (boot + 0x006) 0x4;
          r3 = poke r2 (boot + 0x009) 0x2;
          r4 = poke r3 (boot + 0x00C) 1;
          r5 = poke r4 (boot + 0x00D) 0x82;
          r6 = poke r5 (boot + 0x1C8) (of_char CHR ''W'');
          r7 = poke r6 (boot + 0x1C9) (of_char CHR ''5'');
          r8 = poke r7 (boot + 0x1CA) (of_char CHR ''C'');
          r9 = poke r8 (boot + 0x1CB) (of_char CHR ''2'');
          r10 = poke r9 (boot + 0x1CC) (of_char CHR ''1'')
      in memcpy_to r10 (boot + 0x160) sha1_null16_preimage)"

text \<open>
  The constructor, in the order of the source. The base class creates \<open>space_mem\<close>
  outside ps4.cpp; by section 4.1 of the specification the three subspaces below are
  all it ever holds, so it starts empty. Each \<^verbatim>\<open>addSubspace\<close> may fail, and then
  construction fails. The CPU callbacks and the wiring of the Aeolia devices
  (\<^verbatim>\<open>set_spm\<close>) touch no memory space and are left out.
\<close>

definition PS4Machine :: "'d environment \<Rightarrow> PS4MachineConfig \<Rightarrow> error + 'd machine" where
  "PS4Machine env config =
     (let ram = MemorySpace_new ram_size (fresh_ram env);
          space_ram_below_4g = AliasSpace RamStore (GB 0) ram_size_below_4g;
          space_ram_above_4g = AliasSpace RamStore ram_size_below_4g ram_size_above_4g
      in case addSubspace [] space_ram_below_4g (GB 0) of
           Inl e \<Rightarrow> Inl e
         | Inr mem1 \<Rightarrow>
        (case addSubspace mem1 space_ram_above_4g (GB 4) of
           Inl e \<Rightarrow> Inl e
         | Inr mem2 \<Rightarrow>
        (let ubios = MemorySpace_new ubios_size (fresh_ubios env)
         in case addSubspace mem2 (whole_space UbiosStore ubios) (GB 4 - ubios_size) of
           Inl e \<Rightarrow> Inl e
         | Inr mem3 \<Rightarrow>
             Inr \<lparr>space_mem = mem3,
                  space_ram = init_boot ram,
                  space_ubios = ubios,
                  objects =
                    [Vm, Space_ram, Space_ram_below_4g, Space_ram_above_4g, Space_ubios]
                    @ new_cpus (cpu_count config) @ new_liverpool @ new_aeolia,
                  dev_state = fresh_devices env\<rparr>)))"

text \<open>
  The destructor's body: the objects it deletes, in the order it deletes them. The
  CPUs, the VM and the Liverpool devices other than the host are not named there.
\<close>

definition PS4Machine_destroy :: "component list" where
  "PS4Machine_destroy =
     [Aeolia_acpi, Aeolia_gbe, Aeolia_ahci, Aeolia_sdhci,
      Aeolia_pcie, Aeolia_dmac, Aeolia_mem, Aeolia_xhci,
      Lvp_host,
      Space_ubios, Space_ram_above_4g, Space_ram_below_4g, Space_ram]"

subsection \<open>The firmware containers\<close>

text \<open>
  The ELF structures come from a header outside ps4.cpp; these are the fields
  \<^verbatim>\<open>recover\<close> reads, with the widths ELF64 gives them, and \<^verbatim>\<open>PT_LOAD\<close> with the
  value of the ELF standard. The statements below use of that value only that it is
  not 4.
\<close>

record Elf64_Ehdr =
  e_phnum :: U16

record Elf64_Phdr =
  p_type :: U32
  p_paddr :: U64

definition PT_LOAD :: U32 where
  "PT_LOAD = 1"

definition PS4_PUP_ENTRY_COREOS :: U64 where
  "PS4_PUP_ENTRY_COREOS = 0x5"

text \<open>
  A parsed signed executable: what \<^verbatim>\<open>get_ehdr()\<close>, \<^verbatim>\<open>get_phdr(i)\<close> and
  \<^verbatim>\<open>get_pdata(i)\<close> answer. The two indexed getters may fail.
\<close>

record SelfParser =
  get_ehdr :: Elf64_Ehdr
  get_phdr :: "nat \<Rightarrow> error + Elf64_Phdr"
  get_pdata :: "nat \<Rightarrow> error + bytes"

text \<open>
  The services \<^verbatim>\<open>recover\<close> calls and ps4.cpp does not define, as parameters: opening
  the file, the three parsers (a parser built over a stream is what its \<^verbatim>\<open>get\<close>
  answers), and what a reset does to the state of CPUs and devices. A stream is its
  bytes. Nothing is assumed of them.
\<close>

record 'd services =
  FileStream :: "string \<Rightarrow> error + bytes"
  BlsParser :: "bytes \<Rightarrow> error + (string \<Rightarrow> error + bytes)"
  PupParser :: "bytes \<Rightarrow> error + (U64 \<Rightarrow> error + bytes)"
  SelfParser_new :: "bytes \<Rightarrow> error + SelfParser"
  reset_devices :: "'d \<Rightarrow> 'd"

subsection \<open>Calls in order\<close>

text \<open>
  \<^verbatim>\<open>recover\<close> is a straight line of calls, each of which may fail and end it. The
  model keeps the calls made so far, so that their order can be stated.
\<close>

datatype event =
    Ev_reset
  | Ev_FileStream string
  | Ev_BlsParser bytes
  | Ev_bls_get string
  | Ev_PupParser bytes
  | Ev_pup_get U64
  | Ev_SelfParser bytes
  | Ev_get_ehdr
  | Ev_get_phdr nat
  | Ev_get_pdata nat
  | Ev_write backing nat nat

type_synonym 'a traced = "event list \<times> (error + 'a)"

definition call :: "event \<Rightarrow> error + 'a \<Rightarrow> 'a traced" where
  "call ev r = ([ev], r)"

definition done_with :: "'a \<Rightarrow> 'a traced" where
  "done_with x = ([], Inr x)"

definition then_do :: "'a traced \<Rightarrow> ('a \<Rightarrow> 'b traced) \<Rightarrow> 'b traced" where
  "then_do m f =
     (case m of
        (t, Inl e) \<Rightarrow> (t, Inl e)
      | (t, Inr x) \<Rightarrow> (case f x of (t', r) \<Rightarrow> (t @ t', r)))"

text \<open>
  \<^verbatim>\<open>assert(cond)\<close>. With \<^verbatim>\<open>NDEBUG\<close> defined the macro expands to nothing; without
  it a false condition aborts the process. The specification calls that failure
  \<open>UnsupportedImage\<close>.
\<close>

definition c_assert :: "bool \<Rightarrow> bool \<Rightarrow> unit traced" where
  "c_assert ndebug cond = ([], if ndebug \<or> cond then Inr () else Inl UnsupportedImage)"

text \<open>Lines 146 to 154: from the file to the parsed kernel image.\<close>

definition kernel_image :: "'d services \<Rightarrow> string \<Rightarrow> SelfParser traced" where
  "kernel_image S file =
     then_do (call (Ev_FileStream file) (FileStream S file)) (\<lambda>fs.
     then_do (call (Ev_BlsParser fs) (BlsParser S fs)) (\<lambda>bls.
     then_do (call (Ev_bls_get ''PS4UPDATE1.PUP'') (bls ''PS4UPDATE1.PUP'')) (\<lambda>bs.
     then_do (call (Ev_PupParser bs) (PupParser S bs)) (\<lambda>pup.
     then_do (call (Ev_pup_get PS4_PUP_ENTRY_COREOS) (pup PS4_PUP_ENTRY_COREOS)) (\<lambda>coreos.
     then_do (call (Ev_BlsParser coreos) (BlsParser S coreos)) (\<lambda>coreos_bls.
     then_do (call (Ev_bls_get ''80010002'') (coreos_bls ''80010002'')) (\<lambda>kernel_bs.
     call (Ev_SelfParser kernel_bs) (SelfParser_new S kernel_bs))))))))"

text \<open>Lines 156 to 161: the program header and data of the parsed image \<open>self\<close>.\<close>

definition load_kernel_segment :: "bool \<Rightarrow> SelfParser \<Rightarrow> (Elf64_Phdr \<times> bytes) traced" where
  "load_kernel_segment ndebug self =
     then_do (call Ev_get_ehdr (Inr (get_ehdr self))) (\<lambda>ehdr.
     then_do (c_assert ndebug (e_phnum ehdr = 1)) (\<lambda>_.
     then_do (call (Ev_get_phdr 0) (get_phdr self 0)) (\<lambda>phdr.
     then_do (call (Ev_get_pdata 0) (get_pdata self 0)) (\<lambda>pdata.
     then_do (c_assert ndebug (p_type phdr = PT_LOAD)) (\<lambda>_.
     done_with (phdr, pdata))))))"

definition kernel_segment ::
  "'d services \<Rightarrow> bool \<Rightarrow> string \<Rightarrow> (Elf64_Phdr \<times> bytes) traced" where
  "kernel_segment S ndebug file = then_do (kernel_image S file) (load_kernel_segment ndebug)"

subsection \<open>The kernel patch\<close>

text \<open>
  \<^verbatim>\<open>(U32&)img[0x3B341E] |= 0x800\<close> on a little-endian host: the four bytes are read
  as one 32-bit value, the bit is set, and the four bytes are stored back.
\<close>

definition load_u32 :: "MemorySpace \<Rightarrow> nat \<Rightarrow> U32" where
  "load_u32 sp i =
     ucast (space_bytes sp i)
     OR push_bit 8 (ucast (space_bytes sp (i + 1)))
     OR push_bit 16 (ucast (space_bytes sp (i + 2)))
     OR push_bit 24 (ucast (space_bytes sp (i + 3)))"

definition store_u32 :: "MemorySpace \<Rightarrow> nat \<Rightarrow> U32 \<Rightarrow> MemorySpace" where
  "store_u32 sp i v =
     memcpy_to sp i [ucast v, ucast (drop_bit 8 v), ucast (drop_bit 16 v), ucast (drop_bit 24 v)]"

definition patch_kernel :: "MemorySpace \<Rightarrow> nat \<Rightarrow> MemorySpace" where
  "patch_kernel ram img = store_u32 ram (img + 0x3B341E) (load_u32 ram (img + 0x3B341E) OR 0x800)"

subsection \<open>recover\<close>

text \<open>
  Modelled from the spec: \<^verbatim>\<open>Machine::reset()\<close> is defined outside ps4.cpp. Sections 3
  and 4.3: it re-initialises CPU and device state and leaves the address-space layout
  untouched.
\<close>

definition reset :: "'d services \<Rightarrow> 'd machine \<Rightarrow> 'd machine" where
  "reset S m = m\<lparr>dev_state := reset_devices S (dev_state m)\<rparr>"

text \<open>
  \<^verbatim>\<open>recover(file)\<close>. The result is the machine as the call leaves it, the calls made
  in order, and how it ended. \<open>ndebug\<close> says whether the build defines \<^verbatim>\<open>NDEBUG\<close>.
  The patch stands under \<^verbatim>\<open>if (0)\<close>.
\<close>

definition recover ::
  "'d services \<Rightarrow> bool \<Rightarrow> 'd machine \<Rightarrow> string \<Rightarrow> 'd machine \<times> event list \<times> (error + unit)" where
  "recover S ndebug m file =
     (let m0 = reset S m in
      case kernel_segment S ndebug file of
        (t, Inl e) \<Rightarrow> (m0, Ev_reset # t, Inl e)
      | (t, Inr (phdr, pdata)) \<Rightarrow>
          (let w1 = Ev_write RamStore (unat (p_paddr phdr)) (length pdata);
               w2 = Ev_write UbiosStore 0x0 (space_size (space_ubios m0))
           in case space_write (space_ram m0) (unat (p_paddr phdr)) (length pdata) pdata of
                Inl e \<Rightarrow> (m0, Ev_reset # t @ [w1], Inl e)
              | Inr ram' \<Rightarrow>
                  (let m1 = m0\<lparr>space_ram := ram'\<rparr>
                   in case space_write (space_ubios m1) 0x0 (space_size (space_ubios m1)) pdata of
                        Inl e \<Rightarrow> (m1, Ev_reset # t @ [w1, w2], Inl e)
                      | Inr ubios' \<Rightarrow>
                          (let m2 = m1\<lparr>space_ubios := ubios'\<rparr>;
                               m3 = (if (0 :: int) \<noteq> 0
                                     then m2\<lparr>space_ram :=
                                            patch_kernel (space_ram m2) (unat (p_paddr phdr))\<rparr>
                                     else m2)
                           in (m3, Ev_reset # t @ [w1, w2], Inr ())))))"

subsection \<open>The guest's view\<close>

text \<open>
  Modelled from the spec: \<^verbatim>\<open>resolve(address)\<close> of the composite space is declared
  outside ps4.cpp. Section 4.1: it returns the subspace that owns the address and the
  offset inside it, or fails with \<open>UnmappedAddress\<close>.
\<close>

definition resolve :: "(nat \<times> subspace) list \<Rightarrow> nat \<Rightarrow> error + (subspace \<times> nat)" where
  "resolve regs a =
     (case filter (\<lambda>(b, s). b \<le> a \<and> a < b + sub_size s) regs of
        [] \<Rightarrow> Inl UnmappedAddress
      | (b, s) # rest \<Rightarrow> Inr (s, a - b))"

fun backing_store :: "'d machine \<Rightarrow> backing \<Rightarrow> MemorySpace" where
  "backing_store m RamStore = space_ram m"
| "backing_store m UbiosStore = space_ubios m"

text \<open>
  Modelled from the spec: \<^verbatim>\<open>read(address, length)\<close> of the composite space. Section
  4.1: resolve, then the subspace's own read, which must stay inside the subspace; an
  alias forwards to its parent at its offset (section 2).
\<close>

definition guest_read :: "'d machine \<Rightarrow> nat \<Rightarrow> nat \<Rightarrow> error + bytes" where
  "guest_read m a len =
     (case resolve (space_mem m) a of
        Inl e \<Rightarrow> Inl e
      | Inr (s, off) \<Rightarrow>
          if sub_size s < off + len then Inl OutOfBounds
          else space_read (backing_store m (sub_backing s)) (sub_offset s + off) len)"

subsection \<open>Vocabulary of the statements\<close>

text \<open>The layout the specification describes (section 6), written out.\<close>

definition ps4_layout :: "(nat \<times> subspace) list" where
  "ps4_layout =
     [(0x0, \<lparr>sub_backing = RamStore, sub_offset = 0x0, sub_size = 0x80000000\<rparr>),
      (0x100000000, \<lparr>sub_backing = RamStore, sub_offset = 0x80000000, sub_size = 0x180000000\<rparr>),
      (0xFFF80000, \<lparr>sub_backing = UbiosStore, sub_offset = 0x0, sub_size = 0x80000\<rparr>)]"

fun pairwise_disjoint :: "(nat \<times> subspace) list \<Rightarrow> bool" where
  "pairwise_disjoint [] = True"
| "pairwise_disjoint ((b, s) # rs) =
     (\<not> list_ex (\<lambda>(b', s'). ranges_overlap b (sub_size s) b' (sub_size s')) rs
      \<and> pairwise_disjoint rs)"

text \<open>The calls of a narrowing that went through, given the stream of each level.\<close>

definition narrowing_calls :: "string \<Rightarrow> bytes \<Rightarrow> bytes \<Rightarrow> bytes \<Rightarrow> bytes \<Rightarrow> event list" where
  "narrowing_calls file fs bs coreos kernel_bs =
     [Ev_FileStream file,
      Ev_BlsParser fs, Ev_bls_get ''PS4UPDATE1.PUP'',
      Ev_PupParser bs, Ev_pup_get 5,
      Ev_BlsParser coreos, Ev_bls_get ''80010002'',
      Ev_SelfParser kernel_bs]"

fun is_write :: "event \<Rightarrow> bool" where
  "is_write (Ev_write b off len) = True"
| "is_write ev = False"

fun is_address_space :: "component \<Rightarrow> bool" where
  "is_address_space Space_ram = True"
| "is_address_space Space_ram_below_4g = True"
| "is_address_space Space_ram_above_4g = True"
| "is_address_space Space_ubios = True"
| "is_address_space c = False"

fun is_device :: "component \<Rightarrow> bool" where
  "is_device Vm = False"
| "is_device c = (\<not> is_address_space c)"

text \<open>\<open>x\<close> stands before \<open>y\<close> in \<open>xs\<close>.\<close>

definition precedes :: "'a list \<Rightarrow> 'a \<Rightarrow> 'a \<Rightarrow> bool" where
  "precedes xs x y = (x \<noteq> y \<and> x \<in> set xs \<and> y \<in> set (dropWhile (\<lambda>z. z \<noteq> x) xs))"

subsection \<open>A firmware fixture\<close>

text \<open>
  A four-level fixture for concrete runs: the file \<open>''fw''\<close> holds the outer archive,
  whose entry PS4UPDATE1.PUP is an update package, whose entry 5 is an archive, whose
  entry 80010002 is a signed executable with the given segments (program header and
  data of each). Streams are one-byte tags.
\<close>

definition fixture :: "(Elf64_Phdr \<times> bytes) list \<Rightarrow> 'd services" where
  "fixture segs =
     \<lparr>FileStream = (\<lambda>f. if f = ''fw'' then Inr [1] else Inl EntryNotFound),
      BlsParser = (\<lambda>s.
        if s = [1] then Inr (\<lambda>n. if n = ''PS4UPDATE1.PUP'' then Inr [2] else Inl EntryNotFound)
        else if s = [3] then Inr (\<lambda>n. if n = ''80010002'' then Inr [4] else Inl EntryNotFound)
        else Inl EntryNotFound),
      PupParser = (\<lambda>s.
        if s = [2] then Inr (\<lambda>i. if i = 5 then Inr [3] else Inl EntryNotFound)
        else Inl EntryNotFound),
      SelfParser_new = (\<lambda>s.
        if s = [4]
        then Inr \<lparr>get_ehdr = \<lparr>e_phnum = of_nat (length segs)\<rparr>,
                 get_phdr = (\<lambda>i. if i < length segs then Inr (fst (segs ! i)) else Inl OutOfBounds),
                 get_pdata = (\<lambda>i. if i < length segs then Inr (snd (segs ! i)) else Inl OutOfBounds)\<rparr>
        else Inl EntryNotFound),
      reset_devices = (\<lambda>d. d)\<rparr>"

definition zero_env :: "unit environment" where
  "zero_env = \<lparr>fresh_ram = (\<lambda>_. 0), fresh_ubios = (\<lambda>_. 0), fresh_devices = ()\<rparr>"

text \<open>
  The machine the constructor builds from zeroed allocations and the default
  configuration, and a loadable segment of exactly the size of the firmware-shadow
  region.
\<close>

definition fixture_machine :: "unit machine" where
  "fixture_machine = projr (PS4Machine zero_env PS4MachineConfig_default)"

definition fixture_phdr :: Elf64_Phdr where
  "fixture_phdr = \<lparr>p_type = PT_LOAD, p_paddr = 0x400000\<rparr>"

definition fixture_payload :: bytes where
  "fixture_payload = replicate 0x80000 0x90"

text \<open>
  Fixtures of the signed executable: one loadable segment of the size of the shadow
  region, one byte longer, four bytes only, two loadable segments, and one segment of
  type 4 (a note, not loadable). \<open>fixture_calls\<close> are the calls every one of them
  answers.
\<close>

definition one_segment :: "unit services" where
  "one_segment = fixture [(fixture_phdr, fixture_payload)]"

definition long_segment :: "unit services" where
  "long_segment = fixture [(fixture_phdr, fixture_payload @ [0x01])]"

definition short_segment :: "unit services" where
  "short_segment = fixture [(fixture_phdr, replicate 4 0x90)]"

definition two_segments :: "unit services" where
  "two_segments = fixture [(fixture_phdr, fixture_payload),
                           (\<lparr>p_type = PT_LOAD, p_paddr = 0x1000000\<rparr>, replicate 0x80000 0xCC)]"

definition note_segment :: "unit services" where
  "note_segment = fixture [(\<lparr>p_type = 4, p_paddr = 0x400000\<rparr>, fixture_payload)]"

definition fixture_calls :: "event list" where
  "fixture_calls = narrowing_calls ''fw'' [1] [2] [3] [4] @ [Ev_get_ehdr, Ev_get_phdr 0, Ev_get_pdata 0]"

text \<open>
  A signed executable with one segment of type 4 whose data cannot be had:
  \<^verbatim>\<open>get_pdata(0)\<close> fails.
\<close>

definition nodata_segment :: "unit services" where
  "nodata_segment =
     (fixture [(\<lparr>p_type = 4, p_paddr = 0x400000\<rparr>, [])])
       \<lparr>SelfParser_new := (\<lambda>s.
          if s = [4]
          then Inr \<lparr>get_ehdr = \<lparr>e_phnum = 1\<rparr>,
                   get_phdr = (\<lambda>i. if i = 0 then Inr \<lparr>p_type = 4, p_paddr = 0x400000\<rparr>
                                   else Inl OutOfBounds),
                   get_pdata = (\<lambda>i. Inl EntryNotFound)\<rparr>
          else Inl EntryNotFound)\<rparr>"

text \<open>A loadable segment whose physical address is 4GB, the base of the upper window.\<close>

definition high_segment :: "unit services" where
  "high_segment = fixture [(\<lparr>p_type = PT_LOAD, p_paddr = 0x100000000\<rparr>, fixture_payload)]"

text \<open>
  A machine whose devices have run (their state is 7) and services whose reset puts
  that state back to 0: the one-segment fixture with a reset that is not the identity.
\<close>

definition running_env :: "nat environment" where
  "running_env = \<lparr>fresh_ram = (\<lambda>_. 0), fresh_ubios = (\<lambda>_. 0), fresh_devices = 7\<rparr>"

definition running_machine :: "nat machine" where
  "running_machine = projr (PS4Machine running_env PS4MachineConfig_default)"

definition zeroing_reset :: "nat services" where
  "zeroing_reset = (fixture [(fixture_phdr, fixture_payload)])\<lparr>reset_devices := (\<lambda>d. 0)\<rparr>"

section \<open>Lemmas about the model\<close>

subsection \<open>Stores and words\<close>

lemma sizes: "unat ram_size = 0x200000000" "unat ram_size_below_4g = 0x80000000"
  "unat ram_size_above_4g = 0x180000000" "unat ubios_size = 0x80000"
  "unat (GB 0) = 0" "unat (GB 4) = 0x100000000" "unat (GB 4 - ubios_size) = 0xFFF80000"
  by (simp_all add: ram_size_def ram_size_below_4g_def ram_size_above_4g_def ubios_size_def GB_def)

lemma poke_bytes: "space_bytes (poke sp i v) j = (if j = i then v else space_bytes sp j)"
  by (simp add: poke_def)

lemma memcpy_to_bytes: "space_bytes (memcpy_to sp i bs) j =
   (if i \<le> j \<and> j < i + length bs then bs ! (j - i) else space_bytes sp j)"
proof (induction bs arbitrary: sp i)
  case Nil then show ?case by auto
next
  case (Cons b bs)
  show ?case by (auto simp: Cons.IH poke_bytes nth_Cons')
qed

lemma memcpy_to_size: "space_size (memcpy_to sp i bs) = space_size sp"
  by (induction bs arbitrary: sp i) (simp_all add: poke_def)

lemma space_write_Inr:
  "space_write sp off len buf = Inr sp' \<longleftrightarrow>
     (off + len \<le> space_size sp \<and> len \<le> length buf \<and>
      sp' = sp\<lparr>space_bytes :=
             (\<lambda>i. if off \<le> i \<and> i < off + len then buf ! (i - off) else space_bytes sp i)\<rparr>)"
  by (auto simp: space_write_def)

lemma read_written:
  "space_write sp off len buf = Inr sp' \<Longrightarrow> n \<le> len \<Longrightarrow> space_read sp' off n = Inr (take n buf)"
  by (auto simp: space_write_Inr space_read_def intro!: nth_equalityI)

lemma space_read_constant:
  "off + len \<le> space_size sp \<Longrightarrow> (\<And>i. off \<le> i \<Longrightarrow> i < off + len \<Longrightarrow> space_bytes sp i = v) \<Longrightarrow>
   space_read sp off len = Inr (replicate len v)"
  by (auto simp: space_read_def intro!: nth_equalityI)

lemma store_u32_bytes:
  "space_bytes (store_u32 sp i v) j =
     (if j = i then ucast v
      else if j = i + 1 then ucast (drop_bit 8 v)
      else if j = i + 2 then ucast (drop_bit 16 v)
      else if j = i + 3 then ucast (drop_bit 24 v)
      else space_bytes sp j)"
  by (simp add: store_u32_def poke_bytes)

lemma load_store_u32: "load_u32 (store_u32 sp i v) i = v"
  unfolding load_u32_def
  apply (simp add: store_u32_bytes)
  apply (rule bit_word_eqI)
  apply (auto simp: bit_simps)
  subgoal for n by (cases "24 \<le> n") simp_all
  done

lemma patch_kernel_sets_bit:
  "load_u32 (patch_kernel ram img) (img + 0x3B341E) = load_u32 ram (img + 0x3B341E) OR 0x800"
  by (simp add: patch_kernel_def load_store_u32)

subsection \<open>The constructor and the destructor\<close>

lemma init_boot_size: "space_size (init_boot ram) = space_size ram"
  by (simp add: init_boot_def Let_def memcpy_to_size poke_def)

lemma init_boot_preimage:
  "map (space_bytes (init_boot ram)) [0x600160..<0x600160 + 20] = sha1_null16_preimage"
proof -
  have l: "length sha1_null16_preimage = 20" by (simp add: sha1_null16_preimage_def)
  have "map (space_bytes (init_boot ram)) [0x600160..<0x600160 + length sha1_null16_preimage]
        = sha1_null16_preimage"
    unfolding init_boot_def Let_def
    by (rule nth_equalityI) (simp_all add: memcpy_to_bytes)
  then show ?thesis by (simp only: l)
qed

lemma init_boot_bytes:
  "space_bytes (init_boot ram) 0x600000 = 6"
  "space_bytes (init_boot ram) 0x600006 = 0x4"
  "space_bytes (init_boot ram) 0x600009 = 0x2"
  "space_bytes (init_boot ram) 0x60000C = 1"
  "space_bytes (init_boot ram) 0x60000D = 0x82"
  "space_bytes (init_boot ram) 0x6001C8 = of_char CHR ''W''"
  "space_bytes (init_boot ram) 0x6001C9 = of_char CHR ''5''"
  "space_bytes (init_boot ram) 0x6001CA = of_char CHR ''C''"
  "space_bytes (init_boot ram) 0x6001CB = of_char CHR ''2''"
  "space_bytes (init_boot ram) 0x6001CC = of_char CHR ''1''"
  by (simp_all add: init_boot_def Let_def memcpy_to_bytes poke_bytes sha1_null16_preimage_def)

lemma init_boot_elsewhere:
  "i < 0x600000 \<or> 0x6001CC < i \<Longrightarrow> space_bytes (init_boot ram) i = space_bytes ram i"
  by (auto simp add: init_boot_def Let_def memcpy_to_bytes poke_bytes sha1_null16_preimage_def)

lemma PS4Machine_built: "PS4Machine env config =
  Inr \<lparr>space_mem = ps4_layout,
       space_ram = init_boot (MemorySpace_new ram_size (fresh_ram env)),
       space_ubios = MemorySpace_new ubios_size (fresh_ubios env),
       objects = [Vm, Space_ram, Space_ram_below_4g, Space_ram_above_4g, Space_ubios]
                    @ new_cpus (cpu_count config) @ new_liverpool @ new_aeolia,
       dev_state = fresh_devices env\<rparr>"
  by (simp add: PS4Machine_def addSubspace_def AliasSpace_def whole_space_def MemorySpace_new_def
      ranges_overlap_def sizes ps4_layout_def Let_def)

lemma destroy_order:
  "\<forall>d \<in> set PS4Machine_destroy. \<forall>s \<in> set PS4Machine_destroy.
       is_device d \<and> is_address_space s \<longrightarrow> precedes PS4Machine_destroy d s"
  by (simp add: PS4Machine_destroy_def precedes_def)

subsection \<open>The calls of the pipeline\<close>

lemma then_do_call:
  "then_do (call ev r) f = (case r of Inl e \<Rightarrow> ([ev], Inl e) | Inr x \<Rightarrow> (ev # fst (f x), snd (f x)))"
  by (simp add: then_do_def call_def split: sum.splits prod.splits)

lemma then_do_call':
  "then_do ([ev], r) f = (case r of Inl e \<Rightarrow> ([ev], Inl e) | Inr x \<Rightarrow> (ev # fst (f x), snd (f x)))"
  by (simp add: then_do_def split: sum.splits prod.splits)

lemma then_do_assert:
  "then_do (c_assert nd c) f = (if nd \<or> c then f () else ([], Inl UnsupportedImage))"
  by (simp add: then_do_def c_assert_def split: sum.splits prod.splits)

lemma kernel_image_Inr:
  "kernel_image S file = (t, Inr k) \<longleftrightarrow>
     (\<exists>fs bls bs pup coreos coreos_bls kernel_bs.
        FileStream S file = Inr fs \<and> BlsParser S fs = Inr bls \<and>
        bls ''PS4UPDATE1.PUP'' = Inr bs \<and> PupParser S bs = Inr pup \<and>
        pup 5 = Inr coreos \<and> BlsParser S coreos = Inr coreos_bls \<and>
        coreos_bls ''80010002'' = Inr kernel_bs \<and> SelfParser_new S kernel_bs = Inr k \<and>
        t = narrowing_calls file fs bs coreos kernel_bs)"
  unfolding kernel_image_def call_def then_do_call' PS4_PUP_ENTRY_COREOS_def narrowing_calls_def
  by (auto split: sum.splits)

lemma kernel_image_no_write: "\<not> list_ex is_write (fst (kernel_image S file))"
  unfolding kernel_image_def call_def then_do_call'
  by (auto split: sum.splits)

lemma kernel_image_no_reset: "Ev_reset \<notin> set (fst (kernel_image S file))"
  unfolding kernel_image_def call_def then_do_call'
  by (auto split: sum.splits)

lemma load_kernel_segment_Inr:
  "load_kernel_segment nd k = (t, Inr (phdr, pdata)) \<longleftrightarrow>
     ((nd \<or> e_phnum (get_ehdr k) = 1) \<and> get_phdr k 0 = Inr phdr \<and> get_pdata k 0 = Inr pdata \<and>
      (nd \<or> p_type phdr = PT_LOAD) \<and> t = [Ev_get_ehdr, Ev_get_phdr 0, Ev_get_pdata 0])"
  unfolding load_kernel_segment_def then_do_call then_do_assert done_with_def
  by (auto split: sum.splits)

lemma load_kernel_segment_no_write: "\<not> list_ex is_write (fst (load_kernel_segment nd k))"
  unfolding load_kernel_segment_def then_do_call then_do_assert done_with_def
  by (auto split: sum.splits)

lemma load_kernel_segment_no_reset: "Ev_reset \<notin> set (fst (load_kernel_segment nd k))"
  unfolding load_kernel_segment_def then_do_call then_do_assert done_with_def
  by (auto split: sum.splits)

lemma kernel_segment_cases:
  "kernel_segment S nd file =
     (case kernel_image S file of
        (t, Inl e) \<Rightarrow> (t, Inl e)
      | (t, Inr k) \<Rightarrow> (t @ fst (load_kernel_segment nd k), snd (load_kernel_segment nd k)))"
  by (simp add: kernel_segment_def then_do_def split: prod.splits sum.splits)

lemma kernel_segment_no_write: "\<not> list_ex is_write (fst (kernel_segment S nd file))"
  using kernel_image_no_write[of S "file"] load_kernel_segment_no_write[of nd]
  by (auto simp: kernel_segment_cases split: prod.splits sum.splits)

lemma kernel_segment_no_reset: "Ev_reset \<notin> set (fst (kernel_segment S nd file))"
  using kernel_image_no_reset[of S "file"] load_kernel_segment_no_reset[of nd]
  by (auto simp: kernel_segment_cases split: prod.splits sum.splits)

lemma kernel_segment_Inr_split:
  "kernel_segment S nd file = (t, Inr seg) \<longleftrightarrow>
     (\<exists>t1 k t2. kernel_image S file = (t1, Inr k) \<and>
        load_kernel_segment nd k = (t2, Inr seg) \<and> t = t1 @ t2)"
  by (cases "kernel_image S file")
     (auto simp: kernel_segment_def then_do_def split: prod.splits sum.splits)

lemma kernel_segment_Inr:
  "kernel_segment S nd file = (t, Inr (phdr, pdata)) \<longleftrightarrow>
     (\<exists>t1 k. kernel_image S file = (t1, Inr k) \<and>
        (nd \<or> e_phnum (get_ehdr k) = 1) \<and> get_phdr k 0 = Inr phdr \<and> get_pdata k 0 = Inr pdata \<and>
        (nd \<or> p_type phdr = PT_LOAD) \<and>
        t = t1 @ [Ev_get_ehdr, Ev_get_phdr 0, Ev_get_pdata 0])"
  unfolding kernel_segment_Inr_split load_kernel_segment_Inr by blast

lemma kernel_segment_assert_phnum:
  "kernel_image S file = (t, Inr k) \<Longrightarrow> \<not> nd \<Longrightarrow> e_phnum (get_ehdr k) \<noteq> 1 \<Longrightarrow>
   kernel_segment S nd file = (t @ [Ev_get_ehdr], Inl UnsupportedImage)"
  by (simp add: kernel_segment_cases load_kernel_segment_def then_do_call then_do_assert)

lemma kernel_segment_assert_type:
  "kernel_image S file = (t, Inr k) \<Longrightarrow> \<not> nd \<Longrightarrow> e_phnum (get_ehdr k) = 1 \<Longrightarrow>
   get_phdr k 0 = Inr phdr \<Longrightarrow> get_pdata k 0 = Inr pdata \<Longrightarrow> p_type phdr \<noteq> PT_LOAD \<Longrightarrow>
   kernel_segment S nd file = (t @ [Ev_get_ehdr, Ev_get_phdr 0, Ev_get_pdata 0], Inl UnsupportedImage)"
  by (simp add: kernel_segment_cases load_kernel_segment_def then_do_call then_do_assert done_with_def)

subsection \<open>The runs of recover\<close>

lemma reset_spaces:
  "space_ram (reset S m) = space_ram m" "space_ubios (reset S m) = space_ubios m"
  "space_mem (reset S m) = space_mem m"
  by (simp_all add: reset_def)

lemma recover_pipeline_failed:
  "kernel_segment S nd file = (t, Inl e) \<Longrightarrow> recover S nd m file = (reset S m, Ev_reset # t, Inl e)"
  by (simp add: recover_def Let_def)

lemma recover_loaded:
  "kernel_segment S nd file = (t, Inr (phdr, pdata)) \<Longrightarrow>
   space_write (space_ram (reset S m)) (unat (p_paddr phdr)) (length pdata) pdata = Inr ram' \<Longrightarrow>
   space_write (space_ubios (reset S m)) 0 (space_size (space_ubios (reset S m))) pdata = Inr ubios' \<Longrightarrow>
   recover S nd m file =
     ((reset S m)\<lparr>space_ram := ram', space_ubios := ubios'\<rparr>,
      Ev_reset # t @ [Ev_write RamStore (unat (p_paddr phdr)) (length pdata),
                      Ev_write UbiosStore 0 (space_size (space_ubios m))],
      Inr ())"
  by (simp add: recover_def Let_def reset_def)

lemma recover_Inr:
  "recover S nd m file = (m', t', Inr ()) \<longleftrightarrow>
    (\<exists>t phdr pdata ram' ubios'. kernel_segment S nd file = (t, Inr (phdr, pdata)) \<and>
      space_write (space_ram (reset S m)) (unat (p_paddr phdr)) (length pdata) pdata = Inr ram' \<and>
      space_write (space_ubios (reset S m)) 0 (space_size (space_ubios (reset S m))) pdata = Inr ubios' \<and>
      m' = (reset S m)\<lparr>space_ram := ram', space_ubios := ubios'\<rparr> \<and>
      t' = Ev_reset # t @ [Ev_write RamStore (unat (p_paddr phdr)) (length pdata),
                      Ev_write UbiosStore 0 (space_size (space_ubios m))])"
  by (auto simp add: recover_def Let_def reset_def split: prod.splits sum.splits)

lemma recover_calls_start:
  "\<exists>rest. fst (snd (recover S nd m file)) = Ev_reset # fst (kernel_image S file) @ rest"
proof (cases "kernel_image S file")
  case (Pair t1 r)
  show ?thesis
  proof (cases r)
    case (Inl e)
    with Pair show ?thesis by (simp add: recover_def Let_def kernel_segment_cases)
  next
    case (Inr k)
    with Pair show ?thesis
      by (cases "load_kernel_segment nd k")
         (auto simp: recover_def Let_def kernel_segment_cases split: sum.splits prod.splits)
  qed
qed

lemma recover_ok_image:
  "snd (snd (recover S nd m file)) = Inr () \<Longrightarrow> \<exists>t k. kernel_image S file = (t, Inr k)"
proof -
  assume a: "snd (snd (recover S nd m file)) = Inr ()"
  obtain m' t' where "recover S nd m file = (m', t', Inr ())"
    using a by (cases "recover S nd m file") auto
  then show ?thesis
    unfolding recover_Inr kernel_segment_Inr by blast
qed

subsection \<open>What the guest reads\<close>

lemma resolve_low:
  "a < 0x80000000 \<Longrightarrow>
   resolve ps4_layout a = Inr (\<lparr>sub_backing = RamStore, sub_offset = 0x0, sub_size = 0x80000000\<rparr>, a)"
  by (simp add: resolve_def ps4_layout_def)

lemma resolve_high:
  "0x100000000 \<le> a \<Longrightarrow> a < 0x280000000 \<Longrightarrow>
   resolve ps4_layout a =
     Inr (\<lparr>sub_backing = RamStore, sub_offset = 0x80000000, sub_size = 0x180000000\<rparr>, a - 0x100000000)"
  by (simp add: resolve_def ps4_layout_def)

lemma resolve_shadow:
  "0xFFF80000 \<le> a \<Longrightarrow> a < 0x100000000 \<Longrightarrow>
   resolve ps4_layout a = Inr (\<lparr>sub_backing = UbiosStore, sub_offset = 0x0, sub_size = 0x80000\<rparr>, a - 0xFFF80000)"
  by (simp add: resolve_def ps4_layout_def)

lemma guest_read_low:
  "space_mem m = ps4_layout \<Longrightarrow> 0 < len \<Longrightarrow> a + len \<le> 0x80000000 \<Longrightarrow>
   guest_read m a len = space_read (space_ram m) a len"
  by (simp add: guest_read_def resolve_low)

lemma guest_read_shadow:
  "space_mem m = ps4_layout \<Longrightarrow> guest_read m 0xFFF80000 0x80000 = space_read (space_ubios m) 0 0x80000"
  by (simp add: guest_read_def resolve_shadow)

lemma guest_read_high:
  "space_mem m = ps4_layout \<Longrightarrow> 0x100000000 \<le> a \<Longrightarrow> a + len \<le> 0x280000000 \<Longrightarrow> 0 < len \<Longrightarrow>
   guest_read m a len = space_read (space_ram m) (a - 0x80000000) len"
  by (auto simp add: guest_read_def resolve_high)

subsection \<open>The fixtures\<close>

lemma length_fixture_payload: "length fixture_payload = 0x80000"
  by (simp add: fixture_payload_def)

lemma fixture_machine_eq: "fixture_machine =
   \<lparr>space_mem = ps4_layout,
       space_ram = init_boot (MemorySpace_new ram_size (\<lambda>_. 0)),
       space_ubios = MemorySpace_new ubios_size (\<lambda>_. 0),
       objects = [Vm, Space_ram, Space_ram_below_4g, Space_ram_above_4g, Space_ubios]
                    @ new_cpus 8 @ new_liverpool @ new_aeolia,
       dev_state = ()\<rparr>"
  by (simp add: fixture_machine_def PS4Machine_built zero_env_def PS4MachineConfig_default_def)

lemma fixture_machine_sizes:
  "space_size (space_ram fixture_machine) = 0x200000000"
  "space_size (space_ubios fixture_machine) = 0x80000"
  by (simp_all add: fixture_machine_eq init_boot_size MemorySpace_new_def sizes)

lemma fixture_machine_layout: "space_mem fixture_machine = ps4_layout"
  by (simp add: fixture_machine_eq)

lemma fixture_machine_ram_zero:
  "i < 0x600000 \<or> 0x6001CC < i \<Longrightarrow> space_bytes (space_ram fixture_machine) i = 0"
  by (simp add: fixture_machine_eq init_boot_elsewhere MemorySpace_new_def)

lemma fixture_machine_writes:
  "\<exists>ram' ubios'.
     space_write (space_ram fixture_machine) 0x400000 0x80000 fixture_payload = Inr ram' \<and>
     space_write (space_ubios fixture_machine) 0 0x80000 fixture_payload = Inr ubios'"
  by (simp add: space_write_def fixture_machine_sizes length_fixture_payload)

lemma fixture_kernel_image:
  "kernel_image (fixture segs) ''fw'' =
     (narrowing_calls ''fw'' [1] [2] [3] [4],
      Inr \<lparr>get_ehdr = \<lparr>e_phnum = of_nat (length segs)\<rparr>,
                 get_phdr = (\<lambda>i. if i < length segs then Inr (fst (segs ! i)) else Inl OutOfBounds),
                 get_pdata = (\<lambda>i. if i < length segs then Inr (snd (segs ! i)) else Inl OutOfBounds)\<rparr>)"
  by (simp add: kernel_image_Inr fixture_def)

lemma fixture_kernel_segment:
  "segs \<noteq> [] \<Longrightarrow> nd \<or> (length segs = 1 \<and> p_type (fst (hd segs)) = PT_LOAD) \<Longrightarrow>
   kernel_segment (fixture segs) nd ''fw'' = (fixture_calls, Inr (hd segs))"
  by (cases segs) (auto simp add: kernel_segment_Inr fixture_kernel_image fixture_calls_def)

lemma fixture_reset: "reset (fixture segs) m = m"
  by (simp add: reset_def fixture_def)

lemma one_segment_kernel:
  "kernel_segment one_segment nd ''fw'' = (fixture_calls, Inr (fixture_phdr, fixture_payload))"
  unfolding one_segment_def
  by (subst fixture_kernel_segment) (simp_all add: fixture_phdr_def)

lemma one_segment_reset: "reset one_segment m = m"
  by (simp add: one_segment_def fixture_reset)

lemma one_segment_recover:
  "\<exists>ram' ubios'.
     space_write (space_ram fixture_machine) 0x400000 0x80000 fixture_payload = Inr ram' \<and>
     space_write (space_ubios fixture_machine) 0 0x80000 fixture_payload = Inr ubios' \<and>
     recover one_segment nd fixture_machine ''fw'' =
       (fixture_machine\<lparr>space_ram := ram', space_ubios := ubios'\<rparr>,
        Ev_reset # fixture_calls @ [Ev_write RamStore 0x400000 0x80000, Ev_write UbiosStore 0 0x80000],
        Inr ())"
proof -
  have k: "kernel_segment one_segment nd ''fw'' = (fixture_calls, Inr (fixture_phdr, fixture_payload))"
    unfolding one_segment_def
    by (subst fixture_kernel_segment) (simp_all add: fixture_phdr_def)
  obtain ram' where r: "space_write (space_ram fixture_machine) 0x400000 0x80000 fixture_payload = Inr ram'"
    by (simp add: space_write_def fixture_machine_sizes length_fixture_payload)
  obtain ubios' where u: "space_write (space_ubios fixture_machine) 0 0x80000 fixture_payload = Inr ubios'"
    by (simp add: space_write_def fixture_machine_sizes length_fixture_payload)
  have "recover one_segment nd fixture_machine ''fw'' =
       (fixture_machine\<lparr>space_ram := ram', space_ubios := ubios'\<rparr>,
        Ev_reset # fixture_calls @ [Ev_write RamStore 0x400000 0x80000, Ev_write UbiosStore 0 0x80000],
        Inr ())"
    using recover_loaded[OF k, of fixture_machine ram' ubios'] r u
    by (simp add: one_segment_def fixture_reset fixture_phdr_def length_fixture_payload fixture_machine_sizes)
  with r u show ?thesis by blast
qed

lemma one_segment_ok: "snd (snd (recover one_segment nd fixture_machine ''fw'')) = Inr ()"
  using one_segment_recover[of nd] by auto

lemma long_segment_kernel:
  "kernel_segment long_segment nd ''fw'' = (fixture_calls, Inr (fixture_phdr, fixture_payload @ [0x01]))"
  unfolding long_segment_def
  by (subst fixture_kernel_segment) (simp_all add: fixture_phdr_def)

lemma long_segment_recover:
  "\<exists>ram' ubios'.
     space_write (space_ram fixture_machine) 0x400000 0x80001 (fixture_payload @ [0x01]) = Inr ram' \<and>
     space_write (space_ubios fixture_machine) 0 0x80000 (fixture_payload @ [0x01]) = Inr ubios' \<and>
     recover long_segment nd fixture_machine ''fw'' =
       (fixture_machine\<lparr>space_ram := ram', space_ubios := ubios'\<rparr>,
        Ev_reset # fixture_calls @ [Ev_write RamStore 0x400000 0x80001, Ev_write UbiosStore 0 0x80000],
        Inr ())"
proof -
  obtain ram' where r: "space_write (space_ram fixture_machine) 0x400000 0x80001 (fixture_payload @ [0x01]) = Inr ram'"
    by (simp add: space_write_def fixture_machine_sizes length_fixture_payload)
  obtain ubios' where u: "space_write (space_ubios fixture_machine) 0 0x80000 (fixture_payload @ [0x01]) = Inr ubios'"
    by (simp add: space_write_def fixture_machine_sizes length_fixture_payload)
  have "recover long_segment nd fixture_machine ''fw'' =
       (fixture_machine\<lparr>space_ram := ram', space_ubios := ubios'\<rparr>,
        Ev_reset # fixture_calls @ [Ev_write RamStore 0x400000 0x80001, Ev_write UbiosStore 0 0x80000],
        Inr ())"
    using recover_loaded[OF long_segment_kernel, of fixture_machine ram' ubios'] r u
    by (simp add: long_segment_def fixture_reset fixture_phdr_def length_fixture_payload fixture_machine_sizes)
  with r u show ?thesis by blast
qed

lemma short_segment_kernel:
  "kernel_segment short_segment nd ''fw'' = (fixture_calls, Inr (fixture_phdr, replicate 4 0x90))"
  unfolding short_segment_def
  by (subst fixture_kernel_segment) (simp_all add: fixture_phdr_def)

lemma two_segments_image:
  "\<exists>k. kernel_image two_segments ''fw'' = (narrowing_calls ''fw'' [1] [2] [3] [4], Inr k)
     \<and> e_phnum (get_ehdr k) = 2
     \<and> get_phdr k 0 = Inr fixture_phdr \<and> get_pdata k 0 = Inr fixture_payload"
  by (simp add: two_segments_def fixture_kernel_image)

lemma two_segments_kernel:
  "kernel_segment two_segments True ''fw'' = (fixture_calls, Inr (fixture_phdr, fixture_payload))"
  unfolding two_segments_def
  by (subst fixture_kernel_segment) simp_all

lemma note_segment_image:
  "\<exists>k. kernel_image note_segment ''fw'' = (narrowing_calls ''fw'' [1] [2] [3] [4], Inr k)
     \<and> e_phnum (get_ehdr k) = 1
     \<and> get_phdr k 0 = Inr \<lparr>p_type = 4, p_paddr = 0x400000\<rparr> \<and> get_pdata k 0 = Inr fixture_payload"
  by (simp add: note_segment_def fixture_kernel_image)

lemma note_segment_kernel:
  "kernel_segment note_segment True ''fw'' =
     (fixture_calls, Inr (\<lparr>p_type = 4, p_paddr = 0x400000\<rparr>, fixture_payload))"
  unfolding note_segment_def
  by (subst fixture_kernel_segment) simp_all

lemma nodata_segment_image:
  "kernel_image nodata_segment ''fw'' =
     (narrowing_calls ''fw'' [1] [2] [3] [4],
      Inr \<lparr>get_ehdr = \<lparr>e_phnum = 1\<rparr>,
                   get_phdr = (\<lambda>i. if i = 0 then Inr \<lparr>p_type = 4, p_paddr = 0x400000\<rparr>
                                   else Inl OutOfBounds),
                   get_pdata = (\<lambda>i. Inl EntryNotFound)\<rparr>)"
  by (simp add: kernel_image_Inr nodata_segment_def fixture_def)

lemma nodata_segment_recover:
  "recover nodata_segment False fixture_machine ''fw'' =
     (fixture_machine, Ev_reset # fixture_calls, Inl EntryNotFound)"
proof -
  have "kernel_segment nodata_segment False ''fw'' = (fixture_calls, Inl EntryNotFound)"
    by (simp add: kernel_segment_cases nodata_segment_image load_kernel_segment_def then_do_call
        then_do_assert fixture_calls_def)
  then show ?thesis
    by (simp add: recover_pipeline_failed reset_def nodata_segment_def fixture_def)
qed

lemma high_segment_kernel:
  "kernel_segment high_segment nd ''fw'' =
     (fixture_calls, Inr (\<lparr>p_type = PT_LOAD, p_paddr = 0x100000000\<rparr>, fixture_payload))"
  unfolding high_segment_def
  by (subst fixture_kernel_segment) simp_all

lemma high_segment_reset: "reset high_segment m = m"
  by (simp add: high_segment_def fixture_reset)

lemma high_segment_guest_view:
  "snd (snd (recover high_segment False fixture_machine ''fw'')) = Inr ()
   \<and> space_read (space_ram (fst (recover high_segment False fixture_machine ''fw''))) 0x100000000 0x80000
        = Inr fixture_payload
   \<and> guest_read (fst (recover high_segment False fixture_machine ''fw'')) 0x100000000 0x80000
        = Inr (replicate 0x80000 0)"
proof -
  obtain ram' where
    r: "space_write (space_ram fixture_machine) 0x100000000 0x80000 fixture_payload = Inr ram'"
    by (simp add: space_write_def fixture_machine_sizes length_fixture_payload)
  obtain ubios' where
    u: "space_write (space_ubios fixture_machine) 0 0x80000 fixture_payload = Inr ubios'"
    by (simp add: space_write_def fixture_machine_sizes length_fixture_payload)
  define m' where "m' = fixture_machine\<lparr>space_ram := ram', space_ubios := ubios'\<rparr>"
  have rec: "recover high_segment False fixture_machine ''fw'' =
       (m', Ev_reset # fixture_calls @ [Ev_write RamStore 0x100000000 0x80000, Ev_write UbiosStore 0 0x80000],
        Inr ())"
    unfolding m'_def
    using recover_loaded[OF high_segment_kernel[of False], of fixture_machine ram' ubios'] r u
    by (simp add: high_segment_reset length_fixture_payload fixture_machine_sizes)
  have lay: "space_mem m' = ps4_layout" and ram: "space_ram m' = ram'"
    by (simp_all add: m'_def fixture_machine_layout)
  have r1: "space_read ram' 0x100000000 0x80000 = Inr fixture_payload"
    using read_written[OF r, of "0x80000"] by (simp add: length_fixture_payload)
  have sz: "space_size ram' = 0x200000000"
    using r by (auto simp: space_write_Inr fixture_machine_sizes)
  have b: "space_bytes ram' i = 0" if "0x80000000 \<le> i" "i < 0x80080000" for i
    using r that by (auto simp: space_write_Inr fixture_machine_ram_zero)
  have r2: "space_read ram' 0x80000000 0x80000 = Inr (replicate 0x80000 0)"
    by (rule space_read_constant) (simp_all add: sz b)
  have g: "guest_read m' 0x100000000 0x80000 = space_read ram' 0x80000000 0x80000"
    using guest_read_high[OF lay, of "0x100000000" "0x80000"] by (simp add: ram)
  show ?thesis using r1 r2 g by (simp add: rec ram)
qed

lemma recover_machine:
  "fst (recover S nd m file) =
     (reset S m)\<lparr>space_ram := space_ram (fst (recover S nd m file)),
                  space_ubios := space_ubios (fst (recover S nd m file))\<rparr>"
  by (cases "kernel_segment S nd file")
     (auto simp: recover_def Let_def reset_def split: sum.splits prod.splits)

lemma recover_calls_shape:
  "\<exists>ws. fst (snd (recover S nd m file)) = Ev_reset # fst (kernel_segment S nd file) @ ws
          \<and> list_all is_write ws"
  by (cases "kernel_segment S nd file")
     (auto simp: recover_def Let_def split: sum.splits prod.splits)

lemma running_machine_dev: "dev_state running_machine = 7"
  by (simp add: running_machine_def PS4Machine_built running_env_def)

section \<open>The claims\<close>

subsection \<open>Construction\<close>

text \<open>
  C3: for every configuration and whatever the fresh allocations hold, construction
  succeeds and leaves exactly three registrations in the composite space: the window
  \<open>[0, 0x80000000)\<close> onto bytes \<open>[0, 0x80000000)\<close> of the RAM store, the window
  \<open>[4GB, 4GB + 6GB)\<close> onto bytes \<open>[0x80000000, 8GB)\<close> of the same 8GB store, and
  the firmware-shadow window of \<open>0x80000\<close> bytes at \<open>4GB - 0x80000\<close>. The three guest
  ranges are pairwise disjoint, and each of the three \<^verbatim>\<open>addSubspace\<close> calls, in the
  order of the source, returns the extended registry and not \<open>OverlapError\<close>.
\<close>

theorem C3_three_subspaces:
  "\<exists>m. PS4Machine env config = Inr m
     \<and> space_mem m = ps4_layout
     \<and> pairwise_disjoint (space_mem m)
     \<and> space_size (space_ram m) = 0x200000000
     \<and> space_size (space_ubios m) = 0x80000
     \<and> sub_offset (snd (ps4_layout ! 1)) + sub_size (snd (ps4_layout ! 1)) = space_size (space_ram m)
     \<and> addSubspace [] (AliasSpace RamStore (GB 0) ram_size_below_4g) (GB 0)
         = Inr (take 1 ps4_layout)
     \<and> addSubspace (take 1 ps4_layout) (AliasSpace RamStore ram_size_below_4g ram_size_above_4g) (GB 4)
         = Inr (take 2 ps4_layout)
     \<and> addSubspace (take 2 ps4_layout) (whole_space UbiosStore (space_ubios m)) (GB 4 - ubios_size)
         = Inr ps4_layout"
  by (simp add: PS4Machine_built init_boot_size MemorySpace_new_def sizes ps4_layout_def
      ranges_overlap_def addSubspace_def AliasSpace_def whole_space_def)

text \<open>
  C5: for every configuration (any CPU count) and whatever the fresh RAM holds, the
  machine the constructor returns has, at RAM offset \<open>0x600000\<close>, the literal bytes
  of the source: 6 at \<open>0x000\<close>, 4 at \<open>0x006\<close>, 2 at \<open>0x009\<close>, 1 at \<open>0x00C\<close>,
  \<open>0x82\<close> at \<open>0x00D\<close>, the five characters W5C21 from \<open>0x1C8\<close>, and from \<open>0x160\<close> the
  twenty bytes \<open>0xF8, 0x6F\<close> and eighteen zeros.
\<close>

theorem C5_scratch_pad:
  "\<exists>m. PS4Machine env config = Inr m \<and>
    space_bytes (space_ram m) (0x600000 + 0x000) = 6 \<and>
    space_bytes (space_ram m) (0x600000 + 0x006) = 0x4 \<and>
    space_bytes (space_ram m) (0x600000 + 0x009) = 0x2 \<and>
    space_bytes (space_ram m) (0x600000 + 0x00C) = 1 \<and>
    space_bytes (space_ram m) (0x600000 + 0x00D) = 0x82 \<and>
    space_read (space_ram m) (0x600000 + 0x1C8) 5 = Inr (map of_char ''W5C21'') \<and>
    space_read (space_ram m) (0x600000 + 0x160) 20 = Inr ([0xF8, 0x6F] @ replicate 18 0)"
  using init_boot_preimage[of "MemorySpace_new ram_size (fresh_ram env)"]
  by (simp add: PS4Machine_built init_boot_bytes space_read_def init_boot_size MemorySpace_new_def
        sizes sha1_null16_preimage_def upt_rec_numeral)

subsection \<open>Teardown\<close>

text \<open>
  C6, as amended: the destructor releases the groups in the reverse of the order the
  constructor created them (the Aeolia devices, then the Liverpool host, then the
  address-space objects, these four in the exact reverse of their creation), and every
  device it releases stands before every address-space object it releases. Inside the
  Aeolia group the order is the order of creation, and the CPUs, the VM and the other
  Liverpool devices are not released by this destructor.
\<close>

theorem C6_teardown_order:
  "\<exists>m. PS4Machine env config = Inr m
     \<and> objects m = [Vm] @ [Space_ram, Space_ram_below_4g, Space_ram_above_4g, Space_ubios]
                   @ new_cpus (cpu_count config) @ new_liverpool @ new_aeolia
     \<and> PS4Machine_destroy = new_aeolia @ [Lvp_host]
                   @ rev [Space_ram, Space_ram_below_4g, Space_ram_above_4g, Space_ubios]
     \<and> (\<forall>d \<in> set PS4Machine_destroy. \<forall>s \<in> set PS4Machine_destroy.
           is_device d \<and> is_address_space s \<longrightarrow> precedes PS4Machine_destroy d s)"
  using destroy_order
  by (simp add: PS4Machine_built PS4Machine_destroy_def new_aeolia_def)

theorem C6_teardown_order_witness:
  "is_device Aeolia_xhci \<and> is_address_space Space_ubios
   \<and> Aeolia_xhci \<in> set PS4Machine_destroy \<and> Space_ubios \<in> set PS4Machine_destroy
   \<and> precedes PS4Machine_destroy Aeolia_xhci Space_ubios
   \<and> PS4Machine zero_env PS4MachineConfig_default = Inr fixture_machine"
proof -
  have a: "Aeolia_xhci \<in> set PS4Machine_destroy" and b: "Space_ubios \<in> set PS4Machine_destroy"
    by (simp_all add: PS4Machine_destroy_def)
  from C6_teardown_order[of zero_env PS4MachineConfig_default] a b
  have "precedes PS4Machine_destroy Aeolia_xhci Space_ubios" by auto
  moreover have "PS4Machine zero_env PS4MachineConfig_default = Inr fixture_machine"
    using C6_teardown_order[of zero_env PS4MachineConfig_default]
    by (auto simp: fixture_machine_def)
  ultimately show ?thesis using a b by simp
qed

text \<open>
  C6 as stated fails: for the default configuration the sequence of releases is not the
  reverse of the sequence of creations, and not even on the objects both name, since
  \<^verbatim>\<open>aeolia_acpi\<close> comes before \<^verbatim>\<open>aeolia_xhci\<close> in both.
\<close>

theorem C6_strict_reverse_counterexample:
  "PS4Machine_destroy \<noteq> rev (objects fixture_machine)
   \<and> precedes (objects fixture_machine) Aeolia_acpi Aeolia_xhci
   \<and> precedes PS4Machine_destroy Aeolia_acpi Aeolia_xhci"
  by (simp add: fixture_machine_eq PS4Machine_destroy_def precedes_def new_aeolia_def
      new_liverpool_def new_cpus_def upt_conv_Cons)

subsection \<open>The calls of recover\<close>

text \<open>
  C7: in every run of \<^verbatim>\<open>recover\<close>, whatever the services answer and however it ends,
  the first call is the reset and no later call is one: the calls are the reset, then
  those of the pipeline, then writes only. The reset is applied: the state of CPUs and
  devices after the run is the state before it put through the reset, and the machine
  returned is the machine the reset returned but for the contents of the two stores.
  The steps after the reset leave the registrations of the composite space as the
  reset left them, the reset leaves them as they were, and so the layout after the run
  is the layout before it.
\<close>

theorem C7_reset_first:
  "(\<exists>t. fst (snd (recover S nd m file)) = Ev_reset # t \<and> Ev_reset \<notin> set t)
     \<and> (\<exists>ws. fst (snd (recover S nd m file)) = Ev_reset # fst (kernel_segment S nd file) @ ws
            \<and> list_all is_write ws)
     \<and> dev_state (fst (recover S nd m file)) = reset_devices S (dev_state m)
     \<and> fst (recover S nd m file) =
          (reset S m)\<lparr>space_ram := space_ram (fst (recover S nd m file)),
                       space_ubios := space_ubios (fst (recover S nd m file))\<rparr>
     \<and> objects (fst (recover S nd m file)) = objects m
     \<and> space_mem (fst (recover S nd m file)) = space_mem (reset S m)
     \<and> space_mem (reset S m) = space_mem m
     \<and> space_mem (fst (recover S nd m file)) = space_mem m"
proof -
  have a: "\<exists>t. fst (snd (recover S nd m file)) = Ev_reset # t \<and> Ev_reset \<notin> set t"
    using kernel_segment_no_reset[of S nd "file"]
    by (auto simp: recover_def Let_def split: prod.splits sum.splits)
  have m: "fst (recover S nd m file) =
     (reset S m)\<lparr>space_ram := space_ram (fst (recover S nd m file)),
                  space_ubios := space_ubios (fst (recover S nd m file))\<rparr>"
    by (rule recover_machine)
  have d: "dev_state (fst (recover S nd m file)) = reset_devices S (dev_state m)"
    by (subst m) (simp add: reset_def)
  have ob: "objects (fst (recover S nd m file)) = objects m"
    by (subst m) (simp add: reset_def)
  have sm: "space_mem (fst (recover S nd m file)) = space_mem (reset S m)"
    by (subst m) simp
  show ?thesis
    using a recover_calls_shape[of S nd m "file"] m d ob sm by (simp add: reset_spaces)
qed

theorem C7_reset_first_witness:
  "dev_state running_machine = 7
   \<and> dev_state (fst (recover zeroing_reset False running_machine ''fw'')) = 0
   \<and> hd (fst (snd (recover zeroing_reset False running_machine ''fw''))) = Ev_reset
   \<and> space_mem (fst (recover zeroing_reset False running_machine ''fw'')) = ps4_layout"
proof -
  note c7 = C7_reset_first[of zeroing_reset False running_machine "''fw''"]
  have d: "dev_state (fst (recover zeroing_reset False running_machine ''fw'')) = 0"
    using c7[THEN conjunct2, THEN conjunct2, THEN conjunct1]
    by (simp add: zeroing_reset_def)
  have h: "hd (fst (snd (recover zeroing_reset False running_machine ''fw''))) = Ev_reset"
    using c7[THEN conjunct1] by auto
  have l: "space_mem (fst (recover zeroing_reset False running_machine ''fw'')) = ps4_layout"
    using c7 by (simp add: running_machine_def PS4Machine_built)
  from d h l show ?thesis by (simp add: running_machine_dev)
qed

text \<open>
  C4: in every run of \<^verbatim>\<open>recover\<close> the calls of the narrowing come right after the
  reset. The narrowing returns a parsed signed executable exactly when the file opens,
  parses as an archive and has the entry PS4UPDATE1.PUP; that stream parses as an
  update package and has the entry 5; that stream parses as an archive and has the
  entry 80010002; and that stream parses as a signed executable. Its calls are then
  these, in this order, each on the stream the level before returned. A successful
  \<^verbatim>\<open>recover\<close> has gone through all of them.
\<close>

theorem C4_narrowing:
  "(\<exists>rest. fst (snd (recover S nd m file)) = Ev_reset # fst (kernel_image S file) @ rest)
   \<and> (kernel_image S file = (t, Inr k) \<longleftrightarrow>
       (\<exists>fs bls bs pup coreos coreos_bls kernel_bs.
          FileStream S file = Inr fs \<and> BlsParser S fs = Inr bls \<and>
          bls ''PS4UPDATE1.PUP'' = Inr bs \<and> PupParser S bs = Inr pup \<and>
          pup 5 = Inr coreos \<and> BlsParser S coreos = Inr coreos_bls \<and>
          coreos_bls ''80010002'' = Inr kernel_bs \<and> SelfParser_new S kernel_bs = Inr k \<and>
          t = [Ev_FileStream file,
               Ev_BlsParser fs, Ev_bls_get ''PS4UPDATE1.PUP'',
               Ev_PupParser bs, Ev_pup_get 5,
               Ev_BlsParser coreos, Ev_bls_get ''80010002'',
               Ev_SelfParser kernel_bs]))
   \<and> (snd (snd (recover S nd m file)) = Inr () \<longrightarrow> (\<exists>t k. kernel_image S file = (t, Inr k)))"
  using recover_calls_start[of S nd m "file"] recover_ok_image[of S nd m "file"]
        kernel_image_Inr[of S "file" t k]
  unfolding narrowing_calls_def by blast

theorem C4_narrowing_witness:
  "snd (snd (recover one_segment False fixture_machine ''fw'')) = Inr ()
   \<and> (\<exists>k. kernel_image one_segment ''fw'' =
        ([Ev_FileStream ''fw'',
          Ev_BlsParser [1], Ev_bls_get ''PS4UPDATE1.PUP'',
          Ev_PupParser [2], Ev_pup_get 5,
          Ev_BlsParser [3], Ev_bls_get ''80010002'',
          Ev_SelfParser [4]], Inr k))
   \<and> (\<exists>rest. fst (snd (recover one_segment False fixture_machine ''fw'')) =
        Ev_reset #
         [Ev_FileStream ''fw'',
          Ev_BlsParser [1], Ev_bls_get ''PS4UPDATE1.PUP'',
          Ev_PupParser [2], Ev_pup_get 5,
          Ev_BlsParser [3], Ev_bls_get ''80010002'',
          Ev_SelfParser [4]] @ rest)"
proof -
  have ok: "snd (snd (recover one_segment False fixture_machine ''fw'')) = Inr ()"
    by (rule one_segment_ok)
  note c4 = C4_narrowing[of one_segment False fixture_machine "''fw''"]
  from c4[THEN conjunct2, THEN conjunct2, rule_format, OF ok]
  obtain t k where i: "kernel_image one_segment ''fw'' = (t, Inr k)" by blast
  have t: "t = [Ev_FileStream ''fw'',
          Ev_BlsParser [1], Ev_bls_get ''PS4UPDATE1.PUP'',
          Ev_PupParser [2], Ev_pup_get 5,
          Ev_BlsParser [3], Ev_bls_get ''80010002'',
          Ev_SelfParser [4]]"
    using i by (simp add: one_segment_def fixture_kernel_image narrowing_calls_def)
  from c4[THEN conjunct1] show ?thesis using ok i t by simp
qed

text \<open>
  C10: in every run of \<^verbatim>\<open>recover\<close> the calls are the reset, then the calls of the
  pipeline, then writes only, and no call of the pipeline is a write. If any step of
  the pipeline fails (opening the file, a parser, a lookup, a getter, an assertion),
  \<^verbatim>\<open>recover\<close> ends with that failure and the machine is exactly the machine the
  reset returned: RAM and the shadow region hold what they held after the reset.
\<close>

theorem C10_pipeline_before_writes:
  "(\<exists>ws. fst (snd (recover S nd m file)) = Ev_reset # fst (kernel_segment S nd file) @ ws
          \<and> list_all is_write ws)
   \<and> \<not> list_ex is_write (fst (kernel_segment S nd file))
   \<and> (\<forall>e. snd (kernel_segment S nd file) = Inl e \<longrightarrow>
          recover S nd m file = (reset S m, Ev_reset # fst (kernel_segment S nd file), Inl e))"
proof -
  have a: "\<exists>ws. fst (snd (recover S nd m file)) = Ev_reset # fst (kernel_segment S nd file) @ ws
          \<and> list_all is_write ws"
    by (cases "kernel_segment S nd file")
       (auto simp: recover_def Let_def split: sum.splits prod.splits)
  have c: "recover S nd m file = (reset S m, Ev_reset # fst (kernel_segment S nd file), Inl e)"
    if "snd (kernel_segment S nd file) = Inl e" for e
    using that by (cases "kernel_segment S nd file") (simp add: recover_pipeline_failed)
  from a c kernel_segment_no_write[of S nd "file"] show ?thesis by blast
qed

theorem C10_pipeline_before_writes_witness:
  "snd (kernel_segment one_segment False ''fw'') = Inr (fixture_phdr, fixture_payload)
   \<and> snd (kernel_segment one_segment False ''nofile'') = Inl EntryNotFound
   \<and> recover one_segment False fixture_machine ''nofile''
       = (fixture_machine, [Ev_reset, Ev_FileStream ''nofile''], Inl EntryNotFound)"
proof -
  have k: "kernel_segment one_segment False ''nofile'' = ([Ev_FileStream ''nofile''], Inl EntryNotFound)"
    by (simp add: kernel_segment_cases kernel_image_def then_do_call one_segment_def fixture_def)
  note c10 = C10_pipeline_before_writes[of one_segment False fixture_machine "''nofile''",
      THEN conjunct2, THEN conjunct2, rule_format, of EntryNotFound]
  show ?thesis
    using c10 by (simp add: k one_segment_kernel one_segment_reset)
qed

text \<open>
  C2, as amended: in a build where assertions are compiled in, once the narrowing has
  produced the signed executable, \<^verbatim>\<open>recover\<close> stops at the first assertion with
  \<open>UnsupportedImage\<close> when the header reports a program-header count other than one;
  and it stops at the second assertion with \<open>UnsupportedImage\<close> when the count is one,
  \<^verbatim>\<open>get_phdr(0)\<close> and \<^verbatim>\<open>get_pdata(0)\<close> have answered, and the type of the program
  header is not \<^verbatim>\<open>PT_LOAD\<close>. In both cases nothing has been written: the machine is
  as the reset left it.
\<close>

theorem C2_unsupported_image:
  assumes "kernel_image S file = (t, Inr k)" and "\<not> ndebug"
  shows "(e_phnum (get_ehdr k) \<noteq> 1 \<longrightarrow>
            recover S ndebug m file = (reset S m, Ev_reset # t @ [Ev_get_ehdr], Inl UnsupportedImage))
       \<and> (e_phnum (get_ehdr k) = 1 \<and> get_phdr k 0 = Inr phdr \<and> get_pdata k 0 = Inr pdata
            \<and> p_type phdr \<noteq> PT_LOAD \<longrightarrow>
            recover S ndebug m file =
              (reset S m, Ev_reset # t @ [Ev_get_ehdr, Ev_get_phdr 0, Ev_get_pdata 0],
               Inl UnsupportedImage))"
  using assms
  by (auto simp: recover_pipeline_failed kernel_segment_assert_phnum kernel_segment_assert_type)

theorem C2_unsupported_image_witness:
  "recover two_segments False fixture_machine ''fw'' =
     (fixture_machine, Ev_reset # narrowing_calls ''fw'' [1] [2] [3] [4] @ [Ev_get_ehdr],
      Inl UnsupportedImage)
   \<and> recover note_segment False fixture_machine ''fw'' =
     (fixture_machine, Ev_reset # fixture_calls, Inl UnsupportedImage)"
proof -
  obtain k2 where k2: "kernel_image two_segments ''fw'' = (narrowing_calls ''fw'' [1] [2] [3] [4], Inr k2)"
      and n2: "e_phnum (get_ehdr k2) = 2"
    using two_segments_image by blast
  have a: "recover two_segments False fixture_machine ''fw'' =
     (fixture_machine, Ev_reset # narrowing_calls ''fw'' [1] [2] [3] [4] @ [Ev_get_ehdr],
      Inl UnsupportedImage)"
    using C2_unsupported_image[OF k2, where ndebug = False and m = fixture_machine] n2
    by (simp add: two_segments_def fixture_reset)
  obtain k1 where k1: "kernel_image note_segment ''fw'' = (narrowing_calls ''fw'' [1] [2] [3] [4], Inr k1)"
      and n1: "e_phnum (get_ehdr k1) = 1"
      and p1: "get_phdr k1 0 = Inr \<lparr>p_type = 4, p_paddr = 0x400000\<rparr>"
      and d1: "get_pdata k1 0 = Inr fixture_payload"
    using note_segment_image by blast
  have b: "recover note_segment False fixture_machine ''fw'' =
     (fixture_machine, Ev_reset # fixture_calls, Inl UnsupportedImage)"
    using C2_unsupported_image[OF k1, where ndebug = False and m = fixture_machine
            and phdr = "\<lparr>p_type = 4, p_paddr = 0x400000\<rparr>" and pdata = fixture_payload]
          n1 p1 d1
    by (simp add: note_segment_def fixture_reset PT_LOAD_def fixture_calls_def)
  from a b show ?thesis by simp
qed

text \<open>
  C2 as stated fails. With \<^verbatim>\<open>NDEBUG\<close> defined the assertions are gone: an image
  with two program headers is loaded (segment 0 is taken), and so is an image whose
  one segment is not loadable. And with assertions compiled in, the type is checked
  only after \<^verbatim>\<open>get_pdata(0)\<close>: when that call fails on a segment that is not
  loadable, the failure reported is its own, not \<open>UnsupportedImage\<close>.
\<close>

theorem C2_unsupported_image_counterexample:
  "e_phnum (get_ehdr (projr (snd (kernel_image two_segments ''fw'')))) = 2
   \<and> snd (snd (recover two_segments True fixture_machine ''fw'')) = Inr ()
   \<and> space_read (space_ram (fst (recover two_segments True fixture_machine ''fw''))) 0x400000 0x80000
        = Inr fixture_payload
   \<and> p_type (projr (get_phdr (projr (snd (kernel_image note_segment ''fw''))) 0)) \<noteq> PT_LOAD
   \<and> snd (snd (recover note_segment True fixture_machine ''fw'')) = Inr ()
   \<and> e_phnum (get_ehdr (projr (snd (kernel_image nodata_segment ''fw'')))) = 1
   \<and> p_type (projr (get_phdr (projr (snd (kernel_image nodata_segment ''fw''))) 0)) \<noteq> PT_LOAD
   \<and> snd (snd (recover nodata_segment False fixture_machine ''fw'')) = Inl EntryNotFound"
proof -
  obtain ram' ubios' where
     r: "space_write (space_ram fixture_machine) 0x400000 0x80000 fixture_payload = Inr ram'" and
     u: "space_write (space_ubios fixture_machine) 0 0x80000 fixture_payload = Inr ubios'"
    using fixture_machine_writes by blast
  have a: "recover two_segments True fixture_machine ''fw'' =
       (fixture_machine\<lparr>space_ram := ram', space_ubios := ubios'\<rparr>,
        Ev_reset # fixture_calls @ [Ev_write RamStore 0x400000 0x80000, Ev_write UbiosStore 0 0x80000],
        Inr ())"
    using recover_loaded[OF two_segments_kernel, of fixture_machine ram' ubios'] r u
    by (simp add: two_segments_def fixture_reset fixture_phdr_def length_fixture_payload fixture_machine_sizes)
  have b: "recover note_segment True fixture_machine ''fw'' =
       (fixture_machine\<lparr>space_ram := ram', space_ubios := ubios'\<rparr>,
        Ev_reset # fixture_calls @ [Ev_write RamStore 0x400000 0x80000, Ev_write UbiosStore 0 0x80000],
        Inr ())"
    using recover_loaded[OF note_segment_kernel, of fixture_machine ram' ubios'] r u
    by (simp add: note_segment_def fixture_reset length_fixture_payload fixture_machine_sizes)
  have c: "space_read ram' 0x400000 0x80000 = Inr fixture_payload"
    using read_written[OF r, of "0x80000"] by (simp add: length_fixture_payload)
  have d: "e_phnum (get_ehdr (projr (snd (kernel_image two_segments ''fw'')))) = 2"
    by (simp add: two_segments_def fixture_kernel_image)
  have e: "p_type (projr (get_phdr (projr (snd (kernel_image note_segment ''fw''))) 0)) \<noteq> PT_LOAD"
    by (simp add: note_segment_def fixture_kernel_image PT_LOAD_def)
  have f: "e_phnum (get_ehdr (projr (snd (kernel_image nodata_segment ''fw'')))) = 1"
      "p_type (projr (get_phdr (projr (snd (kernel_image nodata_segment ''fw''))) 0)) \<noteq> PT_LOAD"
    by (simp_all add: nodata_segment_image PT_LOAD_def)
  show ?thesis
    using c d e f by (simp add: a b nodata_segment_recover)
qed

subsection \<open>The writes of recover\<close>

text \<open>
  C1, as amended: when the pipeline returns a segment of at least \<open>0x80000\<close> bytes
  that fits the RAM store at offset \<open>p_paddr\<close>, on a machine with the constructor's
  layout, \<^verbatim>\<open>recover\<close> succeeds; the RAM store then holds the whole segment at
  offset \<open>p_paddr\<close>, and the shadow region holds the first \<open>0x80000\<close> bytes of the
  segment, which are also the first \<open>0x80000\<close> bytes at \<open>p_paddr\<close> in the RAM store.
  The guest reads those \<open>0x80000\<close> bytes at \<open>4GB - 0x80000\<close>, and reads the segment
  at guest address \<open>p_paddr\<close> when the segment ends at or below \<open>0x80000000\<close>, where
  the lower window shows the RAM store at the same offsets.
\<close>

theorem C1_dual_write:
  assumes "kernel_segment S nd file = (t, Inr (phdr, pdata))"
      and "unat (p_paddr phdr) + length pdata \<le> space_size (space_ram m)"
      and "space_size (space_ubios m) = 0x80000"
      and "0x80000 \<le> length pdata"
      and "space_mem m = ps4_layout"
  shows "snd (snd (recover S nd m file)) = Inr ()
       \<and> space_read (space_ram (fst (recover S nd m file))) (unat (p_paddr phdr)) (length pdata)
           = Inr pdata
       \<and> space_read (space_ubios (fst (recover S nd m file))) 0 0x80000 = Inr (take 0x80000 pdata)
       \<and> space_read (space_ram (fst (recover S nd m file))) (unat (p_paddr phdr)) 0x80000
           = Inr (take 0x80000 pdata)
       \<and> guest_read (fst (recover S nd m file)) 0xFFF80000 0x80000 = Inr (take 0x80000 pdata)
       \<and> (unat (p_paddr phdr) + length pdata \<le> 0x80000000 \<longrightarrow>
            guest_read (fst (recover S nd m file)) (unat (p_paddr phdr)) (length pdata) = Inr pdata)"
proof -
  obtain ram' where
    w1: "space_write (space_ram (reset S m)) (unat (p_paddr phdr)) (length pdata) pdata = Inr ram'"
    using assms(2) by (simp add: space_write_def reset_spaces)
  obtain ubios' where
    w2: "space_write (space_ubios (reset S m)) 0 (space_size (space_ubios (reset S m))) pdata = Inr ubios'"
    using assms(3,4) by (simp add: space_write_def reset_spaces)
  define m' where "m' = (reset S m)\<lparr>space_ram := ram', space_ubios := ubios'\<rparr>"
  have rec: "recover S nd m file =
     (m', Ev_reset # t @ [Ev_write RamStore (unat (p_paddr phdr)) (length pdata),
                      Ev_write UbiosStore 0 (space_size (space_ubios m))],
      Inr ())"
    unfolding m'_def by (rule recover_loaded[OF assms(1) w1 w2])
  have lay: "space_mem m' = ps4_layout" and ram: "space_ram m' = ram'" and ub: "space_ubios m' = ubios'"
    using assms(5) by (simp_all add: m'_def reset_spaces)
  have r1: "space_read ram' (unat (p_paddr phdr)) (length pdata) = Inr pdata"
    using read_written[OF w1, of "length pdata"] by simp
  have r2: "space_read ubios' 0 0x80000 = Inr (take 0x80000 pdata)"
    using read_written[OF w2, of "0x80000"] assms(3) by (simp add: reset_spaces)
  have r3: "space_read ram' (unat (p_paddr phdr)) 0x80000 = Inr (take 0x80000 pdata)"
    using read_written[OF w1, of "0x80000"] assms(4) by simp
  have g1: "guest_read m' 0xFFF80000 0x80000 = Inr (take 0x80000 pdata)"
    using guest_read_shadow[OF lay] r2 by (simp add: ub)
  have g2: "guest_read m' (unat (p_paddr phdr)) (length pdata) = Inr pdata"
    if "unat (p_paddr phdr) + length pdata \<le> 0x80000000"
  proof -
    have ne: "0 < length pdata" using assms(4) by (cases pdata) simp_all
    show ?thesis using guest_read_low[OF lay ne that] r1 by (simp add: ram)
  qed
  show ?thesis using r1 r2 r3 g1 g2 by (simp add: rec ram ub)
qed

theorem C1_dual_write_witness:
  "kernel_segment one_segment False ''fw'' = (fixture_calls, Inr (fixture_phdr, fixture_payload))
   \<and> unat (p_paddr fixture_phdr) + length fixture_payload \<le> space_size (space_ram fixture_machine)
   \<and> space_size (space_ubios fixture_machine) = 0x80000
   \<and> 0x80000 \<le> length fixture_payload
   \<and> space_mem fixture_machine = ps4_layout
   \<and> unat (p_paddr fixture_phdr) + length fixture_payload \<le> 0x80000000
   \<and> snd (snd (recover one_segment False fixture_machine ''fw'')) = Inr ()
   \<and> space_read (space_ram (fst (recover one_segment False fixture_machine ''fw''))) 0x400000 0x80000
        = Inr fixture_payload
   \<and> space_read (space_ubios (fst (recover one_segment False fixture_machine ''fw''))) 0 0x80000
        = Inr fixture_payload
   \<and> guest_read (fst (recover one_segment False fixture_machine ''fw'')) 0x400000 0x80000
        = Inr fixture_payload
   \<and> guest_read (fst (recover one_segment False fixture_machine ''fw'')) 0xFFF80000 0x80000
        = Inr fixture_payload"
proof -
  have fits: "unat (p_paddr fixture_phdr) + length fixture_payload \<le> space_size (space_ram fixture_machine)"
    by (simp add: fixture_phdr_def length_fixture_payload fixture_machine_sizes)
  have low: "unat (p_paddr fixture_phdr) + length fixture_payload \<le> 0x80000000"
    by (simp add: fixture_phdr_def length_fixture_payload)
  have long: "0x80000 \<le> length fixture_payload"
    by (simp add: length_fixture_payload)
  note c1 = C1_dual_write[OF one_segment_kernel[of False] fits fixture_machine_sizes(2) long
               fixture_machine_layout]
  show ?thesis
    using c1 fits long low
    by (simp add: one_segment_kernel fixture_machine_sizes fixture_phdr_def length_fixture_payload
          fixture_machine_layout)
qed

text \<open>
  C1 as stated fails, in two ways. A segment of \<open>0x80001\<close> bytes is loaded, RAM
  holds all of it, and the shadow region holds only its first \<open>0x80000\<close> bytes: a
  read of the payload's length at offset 0 of the shadow region is out of bounds. A
  segment at physical address 4GB is written at offset 4GB of the RAM store, and the
  guest, who reads offset \<open>0x80000000\<close> of the store at address 4GB, finds zeros
  there.
\<close>

theorem C1_same_bytes_counterexample:
  "snd (snd (recover long_segment False fixture_machine ''fw'')) = Inr ()
   \<and> kernel_segment long_segment False ''fw''
        = (fixture_calls, Inr (fixture_phdr, fixture_payload @ [0x01]))
   \<and> space_read (space_ram (fst (recover long_segment False fixture_machine ''fw''))) 0x400000 0x80001
        = Inr (fixture_payload @ [0x01])
   \<and> space_read (space_ubios (fst (recover long_segment False fixture_machine ''fw''))) 0 0x80001
        = Inl OutOfBounds
   \<and> space_read (space_ubios (fst (recover long_segment False fixture_machine ''fw''))) 0 0x80000
        = Inr fixture_payload
   \<and> fixture_payload \<noteq> fixture_payload @ [0x01]
   \<and> snd (snd (recover high_segment False fixture_machine ''fw'')) = Inr ()
   \<and> guest_read (fst (recover high_segment False fixture_machine ''fw'')) 0x100000000 0x80000
        = Inr (replicate 0x80000 0)
   \<and> replicate 0x80000 0 \<noteq> fixture_payload"
proof -
  obtain ram' ubios' where
     r: "space_write (space_ram fixture_machine) 0x400000 0x80001 (fixture_payload @ [0x01]) = Inr ram'" and
     u: "space_write (space_ubios fixture_machine) 0 0x80000 (fixture_payload @ [0x01]) = Inr ubios'" and
     rec: "recover long_segment False fixture_machine ''fw'' =
       (fixture_machine\<lparr>space_ram := ram', space_ubios := ubios'\<rparr>,
        Ev_reset # fixture_calls @ [Ev_write RamStore 0x400000 0x80001, Ev_write UbiosStore 0 0x80000],
        Inr ())"
    using long_segment_recover[of False] by blast
  have r1: "space_read ram' 0x400000 0x80001 = Inr (fixture_payload @ [0x01])"
    using read_written[OF r, of "0x80001"] by (simp add: length_fixture_payload)
  have r2: "space_read ubios' 0 0x80000 = Inr fixture_payload"
    using read_written[OF u, of "0x80000"] by (simp add: length_fixture_payload)
  have sz: "space_size ubios' = 0x80000"
    using u by (auto simp: space_write_Inr fixture_machine_sizes)
  have r3: "space_read ubios' 0 0x80001 = Inl OutOfBounds"
    by (simp add: space_read_def sz)
  have r5: "replicate 0x80000 0 \<noteq> fixture_payload"
    by (simp add: fixture_payload_def)
  show ?thesis
    using r1 r2 r3 r5 high_segment_guest_view
    by (simp add: rec long_segment_kernel)
qed

text \<open>
  C9: once the pipeline has returned a segment and the RAM write has succeeded, the
  next call is the write of \<open>0x80000\<close> bytes (the size of the shadow region) at
  offset 0 of the shadow region, whatever the length of the segment. If the segment is
  shorter than \<open>0x80000\<close> bytes, the copy reads past its end; otherwise \<^verbatim>\<open>recover\<close>
  succeeds and the shadow region holds the segment's first \<open>0x80000\<close> bytes.
\<close>

theorem C9_shadow_copy_length:
  assumes "kernel_segment S nd file = (t, Inr (phdr, pdata))"
      and "space_write (space_ram (reset S m)) (unat (p_paddr phdr)) (length pdata) pdata = Inr ram'"
      and "space_size (space_ubios m) = 0x80000"
  shows "fst (snd (recover S nd m file)) =
           Ev_reset # t @ [Ev_write RamStore (unat (p_paddr phdr)) (length pdata),
                           Ev_write UbiosStore 0 0x80000]
       \<and> (length pdata < 0x80000 \<longrightarrow>
             snd (snd (recover S nd m file)) = Inl (ReadPastEnd 0x80000 (length pdata)))
       \<and> (0x80000 \<le> length pdata \<longrightarrow>
             snd (snd (recover S nd m file)) = Inr () \<and>
             space_read (space_ubios (fst (recover S nd m file))) 0 0x80000 = Inr (take 0x80000 pdata))"
proof -
  have sz: "space_size (space_ubios (reset S m)) = 0x80000"
    using assms(3) by (simp add: reset_def)
  show ?thesis
  proof (cases "length pdata < 0x80000")
    case True
    then have "space_write (space_ubios (reset S m)) 0 0x80000 pdata
                 = Inl (ReadPastEnd 0x80000 (length pdata))"
      by (simp add: space_write_def sz)
    with True show ?thesis
      using assms(1,2) by (simp add: recover_def Let_def sz)
  next
    case False
    then obtain ubios' where u: "space_write (space_ubios (reset S m)) 0 0x80000 pdata = Inr ubios'"
      by (simp add: space_write_def sz)
    have "space_read ubios' 0 0x80000 = Inr (take 0x80000 pdata)"
      using read_written[OF u, of "0x80000"] by simp
    with False u show ?thesis
      using assms(1,2) by (simp add: recover_def Let_def sz)
  qed
qed

theorem C9_shadow_copy_length_witness:
  "kernel_segment short_segment False ''fw'' = (fixture_calls, Inr (fixture_phdr, replicate 4 0x90))
   \<and> space_size (space_ubios fixture_machine) = 0x80000
   \<and> fst (snd (recover short_segment False fixture_machine ''fw'')) =
        Ev_reset # fixture_calls @ [Ev_write RamStore 0x400000 4, Ev_write UbiosStore 0 0x80000]
   \<and> snd (snd (recover short_segment False fixture_machine ''fw'')) = Inl (ReadPastEnd 0x80000 4)"
proof -
  obtain ram' where
     r: "space_write (space_ram (reset short_segment fixture_machine)) (unat (p_paddr fixture_phdr))
           (length (replicate 4 0x90 :: bytes)) (replicate 4 0x90) = Inr ram'"
    by (simp add: space_write_def short_segment_def fixture_reset fixture_phdr_def fixture_machine_sizes)
  note c9 = C9_shadow_copy_length[OF short_segment_kernel[of False] r fixture_machine_sizes(2)]
  show ?thesis
    using c9 by (simp add: short_segment_kernel fixture_machine_sizes fixture_phdr_def)
qed

text \<open>
  C8: whenever the pipeline and the two writes succeed, \<^verbatim>\<open>recover\<close> succeeds (no later
  step can fail) and leaves the machine as the reset left it but for the two writes:
  every byte of RAM outside the segment is the byte after the reset, every byte inside
  the byte of the segment. The patch, which would set bit \<open>0x800\<close> of the 32-bit value
  at segment offset \<open>0x3B341E\<close>, is not applied.
\<close>

theorem C8_patch_disabled:
  assumes "kernel_segment S nd file = (t, Inr (phdr, pdata))"
      and "space_write (space_ram (reset S m)) (unat (p_paddr phdr)) (length pdata) pdata = Inr ram'"
      and "space_write (space_ubios (reset S m)) 0 (space_size (space_ubios (reset S m))) pdata = Inr ubios'"
  shows "recover S nd m file =
           ((reset S m)\<lparr>space_ram := ram', space_ubios := ubios'\<rparr>,
            Ev_reset # t @ [Ev_write RamStore (unat (p_paddr phdr)) (length pdata),
                            Ev_write UbiosStore 0 (space_size (space_ubios m))],
            Inr ())
       \<and> (\<forall>i. space_bytes (space_ram (fst (recover S nd m file))) i =
              (if unat (p_paddr phdr) \<le> i \<and> i < unat (p_paddr phdr) + length pdata
               then pdata ! (i - unat (p_paddr phdr))
               else space_bytes (space_ram (reset S m)) i))
       \<and> load_u32 (patch_kernel ram' (unat (p_paddr phdr))) (unat (p_paddr phdr) + 0x3B341E)
           = load_u32 ram' (unat (p_paddr phdr) + 0x3B341E) OR 0x800"
proof -
  have r: "recover S nd m file =
           ((reset S m)\<lparr>space_ram := ram', space_ubios := ubios'\<rparr>,
            Ev_reset # t @ [Ev_write RamStore (unat (p_paddr phdr)) (length pdata),
                            Ev_write UbiosStore 0 (space_size (space_ubios m))],
            Inr ())"
    by (rule recover_loaded[OF assms])
  have b: "space_bytes ram' i =
              (if unat (p_paddr phdr) \<le> i \<and> i < unat (p_paddr phdr) + length pdata
               then pdata ! (i - unat (p_paddr phdr))
               else space_bytes (space_ram (reset S m)) i)" for i
    using assms(2) by (auto simp: space_write_Inr)
  show ?thesis using b by (simp add: r patch_kernel_sets_bit)
qed

theorem C8_patch_disabled_witness:
  "kernel_segment one_segment False ''fw'' = (fixture_calls, Inr (fixture_phdr, fixture_payload))
   \<and> snd (snd (recover one_segment False fixture_machine ''fw'')) = Inr ()
   \<and> space_bytes (space_ram (fst (recover one_segment False fixture_machine ''fw''))) (0x400000 + 0x3B341F) = 0
   \<and> space_bytes (space_ram (fst (recover one_segment False fixture_machine ''fw''))) 0x400000 = 0x90"
proof -
  obtain ram' ubios' where
     r: "space_write (space_ram (reset one_segment fixture_machine)) (unat (p_paddr fixture_phdr))
           (length fixture_payload) fixture_payload = Inr ram'" and
     u: "space_write (space_ubios (reset one_segment fixture_machine)) 0
           (space_size (space_ubios (reset one_segment fixture_machine))) fixture_payload = Inr ubios'"
    using one_segment_recover[of False]
    by (auto simp: one_segment_reset fixture_phdr_def length_fixture_payload fixture_machine_sizes)
  note c8 = C8_patch_disabled[OF one_segment_kernel[of False] r u]
  have ok: "snd (snd (recover one_segment False fixture_machine ''fw'')) = Inr ()"
    using c8 by simp
  have bytes_after: "space_bytes (space_ram (fst (recover one_segment False fixture_machine ''fw''))) i =
      (if 0x400000 \<le> i \<and> i < 0x480000 then fixture_payload ! (i - 0x400000)
       else space_bytes (space_ram fixture_machine) i)" for i
    using c8[THEN conjunct2, THEN conjunct1, rule_format, of i]
    by (simp add: fixture_phdr_def length_fixture_payload one_segment_reset)
  show ?thesis
    using ok by (simp add: one_segment_kernel bytes_after fixture_machine_ram_zero fixture_payload_def)
qed

end
